theory Spec2Isabelle
  imports Complex_Main "HOL-Library.Multiset"
begin

section \<open>Random source\<close>

text \<open>
  The orchestrators draw from Python's \<^verbatim>\<open>random\<close> module. The generator behind it is
  replaced by an arbitrary entropy stream \<open>g\<close>, read at a position \<open>k\<close> that every draw
  advances: \<^verbatim>\<open>_randbelow(n)\<close> at position \<open>k\<close> is \<open>g k mod n\<close>, so every value below
  \<open>n\<close> is a possible outcome and no other is. A statement proved for every \<open>g\<close> holds for
  every outcome of the draws.
\<close>

type_synonym entropy = "nat \<Rightarrow> nat"

datatype py_error = ValueError | IndexError | ZeroDivisionError

text \<open>\<^verbatim>\<open>random.randint(a, b)\<close> is \<^verbatim>\<open>a + _randbelow(b - a + 1)\<close>; an empty range raises.\<close>

definition randint_val :: "entropy \<Rightarrow> nat \<Rightarrow> int \<Rightarrow> int \<Rightarrow> int" where
  "randint_val g k a b = a + int (g k mod nat (b - a + 1))"

definition randint :: "entropy \<Rightarrow> nat \<Rightarrow> int \<Rightarrow> int \<Rightarrow> py_error + int" where
  "randint g k a b = (if b < a then Inl ValueError else Inr (randint_val g k a b))"

text \<open>
  \<^verbatim>\<open>random.shuffle(x)\<close>: for \<open>i\<close> from \<open>len(x) - 1\<close> down to \<open>1\<close>, draw \<open>j\<close> below \<open>i + 1\<close>
  and exchange \<open>x[i]\<close> and \<open>x[j]\<close>.
\<close>

fun shuffle_from :: "entropy \<Rightarrow> nat \<Rightarrow> nat \<Rightarrow> 'a list \<Rightarrow> 'a list" where
  "shuffle_from g k 0 xs = xs"
| "shuffle_from g k (Suc m) xs =
     (let i = Suc m; j = g k mod (i + 1)
      in shuffle_from g (Suc k) m (xs[i := xs ! j, j := xs ! i]))"

definition shuffle :: "entropy \<Rightarrow> nat \<Rightarrow> 'a list \<Rightarrow> 'a list" where
  "shuffle g k xs = shuffle_from g k (length xs - 1) xs"

section \<open>Trial generator\<close>

text \<open>A trial is the tuple \<^verbatim>\<open>(timestamp, cue, effect)\<close>.\<close>

type_synonym trial = "int \<times> int \<times> int"

fun offset :: "trial \<Rightarrow> int" where "offset (t, c, e) = t"
fun cue_of :: "trial \<Rightarrow> int" where "cue_of (t, c, e) = c"
fun effect_of :: "trial \<Rightarrow> int" where "effect_of (t, c, e) = e"

text \<open>
  The offset loop of both branches: append the trial at the cursor, then advance the
  cursor by \<^verbatim>\<open>random.randint(min_interval, max_interval)\<close>.
\<close>

fun assign_offsets ::
  "entropy \<Rightarrow> nat \<Rightarrow> int \<Rightarrow> int \<Rightarrow> int \<Rightarrow> (int \<times> int) list \<Rightarrow> py_error + trial list" where
  "assign_offsets g k lo hi ts [] = Inr []"
| "assign_offsets g k lo hi ts ((cue, eff) # rest) =
     (case randint g k lo hi of
        Inl e \<Rightarrow> Inl e
      | Inr d \<Rightarrow>
          (case assign_offsets g (Suc k) lo hi (ts + d) rest of
             Inl e \<Rightarrow> Inl e
           | Inr later \<Rightarrow> Inr ((ts, cue, eff) # later)))"

text \<open>\<^verbatim>\<open>int(x)\<close> on a quotient truncates towards zero.\<close>

definition py_int :: "real \<Rightarrow> int" where
  "py_int x = (if 0 \<le> x then \<lfloor>x\<rfloor> else \<lceil>x\<rceil>)"

text \<open>
  \<^verbatim>\<open>generate_trials\<close> of the timing orchestrator. The arguments are the integers the
  callers pass; the quotient of the duration-driven branch is taken exactly.
\<close>

definition generate_trials_timing ::
  "entropy \<Rightarrow> nat \<Rightarrow> int \<Rightarrow> int \<Rightarrow> int \<Rightarrow> int \<Rightarrow> int list \<Rightarrow> int list \<Rightarrow> int \<Rightarrow> int
     \<Rightarrow> py_error + trial list" where
  "generate_trials_timing g k num_repeats duration start_off end_off cue_types effect_types
      min_iv max_iv =
     (if num_repeats \<noteq> 0 then
        (let combinations = concat (map (\<lambda>cue. map (\<lambda>effect. (cue, effect)) effect_types) cue_types);
             repeated_combinations = concat (replicate (nat num_repeats) combinations);
             shuffled = shuffle g k repeated_combinations
         in assign_offsets g (k + (length repeated_combinations - 1)) min_iv max_iv start_off shuffled)
      else if max_iv + min_iv = 0 then Inl ZeroDivisionError
      else
        (let n = py_int (real_of_int (duration - start_off - end_off)
                          / (real_of_int (max_iv + min_iv) / 2))
         in if n \<le> 0 then Inr []
            else (case cue_types of
                    [] \<Rightarrow> Inl IndexError
                  | c # _ \<Rightarrow> assign_offsets g k min_iv max_iv start_off (replicate (nat n) (c, 1)))))"

text \<open>
  The non-timing orchestrator's \<^verbatim>\<open>generate_trials\<close> is the same function with the
  interval bounds read from the module globals.
\<close>

definition min_interval :: int where "min_interval = 8"
definition max_interval :: int where "max_interval = 12"

definition generate_trials ::
  "entropy \<Rightarrow> nat \<Rightarrow> int \<Rightarrow> int \<Rightarrow> int \<Rightarrow> int \<Rightarrow> int list \<Rightarrow> int list \<Rightarrow> py_error + trial list" where
  "generate_trials g k num_rep duration start_off min_end_offset cue_types effect_types =
     (if num_rep \<noteq> 0 then
        (let combinations = concat (map (\<lambda>cue. map (\<lambda>effect. (cue, effect)) effect_types) cue_types);
             repeated_combinations = concat (replicate (nat num_rep) combinations);
             shuffled = shuffle g k repeated_combinations
         in assign_offsets g (k + (length repeated_combinations - 1)) min_interval max_interval
              start_off shuffled)
      else if max_interval + min_interval = 0 then Inl ZeroDivisionError
      else
        (let n = py_int (real_of_int (duration - start_off - min_end_offset)
                          / (real_of_int (max_interval + min_interval) / 2))
         in if n \<le> 0 then Inr []
            else (case cue_types of
                    [] \<Rightarrow> Inl IndexError
                  | c # _ \<Rightarrow>
                      assign_offsets g k min_interval max_interval start_off
                        (replicate (nat n) (c, 1)))))"

text \<open>The spacing law of a timeline: first offset, strict increase, bounded gaps.\<close>

definition spacing_law :: "int \<Rightarrow> int \<Rightarrow> int \<Rightarrow> trial list \<Rightarrow> bool" where
  "spacing_law lo hi start trials =
     ((trials \<noteq> [] \<longrightarrow> offset (hd trials) = start)
      \<and> sorted_wrt (<) (map offset trials)
      \<and> successively (\<lambda>a b. lo \<le> b - a \<and> b - a \<le> hi) (map offset trials))"


definition content :: "trial list \<Rightarrow> (int \<times> int) multiset" where
  "content trials = mset (map (\<lambda>t. (cue_of t, effect_of t)) trials)"

section \<open>Observable effects of the orchestrators\<close>

text \<open>
  What an orchestrator does to the outside is recorded, in order, as a list of events:
  a directive published on the bus (\<^verbatim>\<open>send_string("<topic> <command>")\<close>), a sound started
  on a mixer channel, a dot of the haptic vest, the robot identifier pushed to its
  telemetry stream, and a blocking \<^verbatim>\<open>time.sleep\<close>. Console output and the periodic
  telemetry of the state variables are left out. Wall-clock readings and durations are
  real numbers; every reading of the clock and of a GPIO pin is an input of the iteration
  that reads it.
\<close>

datatype topic = AllRobots | Robot int | Led

datatype event =
    Publish topic string
  | Play nat string
  | SubmitDot nat nat nat
  | PushRobotId int
  | Sleep real

datatype ('s, 'o) flow = Next 's | Exit 'o

definition num_robots :: int where "num_robots = 10"
definition vibration_intensity :: nat where "vibration_intensity = 40"
definition vest_dots :: "nat list" where "vest_dots = [1, 4, 13, 16, 17, 20, 29, 32]"

definition vest_events :: "event list" where
  "vest_events = map (\<lambda>dot. SubmitDot dot 10 vibration_intensity) vest_dots"

section \<open>Orchestrator without response window\<close>

definition robot_stop_duration :: real where "robot_stop_duration = 5"
definition start_offset :: int where "start_offset = 30"
definition end_offset :: int where "end_offset = 30"
definition stop_offset :: real where "stop_offset = 2 / 100"

text \<open>
  The module globals \<^verbatim>\<open>robot_state\<close>, \<^verbatim>\<open>cue_state\<close>, \<^verbatim>\<open>robot_stop_id\<close> (suffix \<open>_g\<close>) and
  the locals of \<^verbatim>\<open>run_experiment\<close> (prefix \<open>x_\<close>), with the position in the entropy
  stream and the events so far.
\<close>

record session =
  robot_state_g :: int
  cue_state_g :: int
  robot_stop_id_g :: int
  x_start_time :: real
  x_elapsed_time :: real
  x_trial_index :: nat
  x_cue_emitted :: bool
  x_rng :: nat
  x_events :: "event list"

record xin =
  x_clock_loop :: real
  x_clock :: real
  x_stop_pin :: bool

definition x_emit :: "event list \<Rightarrow> session \<Rightarrow> session" where
  "x_emit es s = s\<lparr>x_events := x_events s @ es\<rparr>"

definition emit_cue :: "trial \<Rightarrow> session \<Rightarrow> session" where
  "emit_cue trial s =
     (if cue_of trial = 0 then s\<lparr>cue_state_g := 1\<rparr>
      else if cue_of trial = 1 then (x_emit [Play 1 ''sine.wav''] s)\<lparr>cue_state_g := 2\<rparr>
      else if cue_of trial = 2 then (x_emit vest_events s)\<lparr>cue_state_g := 3\<rparr>
      else if cue_of trial = 3 then
        (x_emit (Play 1 ''sine.wav'' # vest_events) s)\<lparr>cue_state_g := 4\<rparr>
      else s)"

text \<open>
  \<^verbatim>\<open>num_robots\<close> is \<open>10\<close>, so the range of \<^verbatim>\<open>random.randint(0, num_robots - 1)\<close> is never
  empty and the draw cannot raise.
\<close>

definition start_pause :: "entropy \<Rightarrow> trial \<Rightarrow> session \<Rightarrow> session" where
  "start_pause g trial s =
     (if effect_of trial = 1 then
        (let rid = randint_val g (x_rng s) 0 (num_robots - 1)
         in (x_emit [Publish (Robot rid) ''pause'', PushRobotId (rid + 1)] s)
              \<lparr>robot_stop_id_g := rid, x_rng := Suc (x_rng s), robot_state_g := 1\<rparr>)
      else s\<lparr>robot_stop_id_g := - 1, robot_state_g := 2\<rparr>)"

definition end_pause :: "session \<Rightarrow> session" where
  "end_pause s =
     (let s1 = (if robot_stop_id_g s \<noteq> - 1
                then x_emit [Publish (Robot (robot_stop_id_g s)) ''go''] s else s)
      in s1\<lparr>robot_state_g := 0, cue_state_g := 0\<rparr>)"

text \<open>
  One pass through the body of the main loop of \<^verbatim>\<open>run_experiment\<close>. \<open>Exit\<close> is the
  \<^verbatim>\<open>return\<close> on the stop button (the pin reads \<open>1\<close> while the button is not pressed).
\<close>

definition run_experiment_iter ::
  "entropy \<Rightarrow> trial list \<Rightarrow> xin \<Rightarrow> session \<Rightarrow> (session, session) flow" where
  "run_experiment_iter g trials inp s0 =
     (let s = s0\<lparr>x_elapsed_time := x_clock inp - x_start_time s0\<rparr>;
          elapsed = x_elapsed_time s;
          i = x_trial_index s
      in if \<not> x_stop_pin inp then Exit (x_emit [Publish AllRobots ''off''] s)
         else if i < length trials \<and> \<not> x_cue_emitted s \<and> elapsed \<ge> real_of_int (offset (trials ! i))
           then Next ((emit_cue (trials ! i) s)\<lparr>x_cue_emitted := True\<rparr>)
         else if i < length trials \<and> elapsed \<ge> real_of_int (offset (trials ! i)) + stop_offset
                 \<and> robot_state_g s = 0
           then Next (start_pause g (trials ! i) s)
         else if i < length trials
                 \<and> elapsed \<ge> real_of_int (offset (trials ! i)) + stop_offset + robot_stop_duration
           then Next ((end_pause s)\<lparr>x_trial_index := i + 1, x_cue_emitted := False\<rparr>)
         else Next s)"

text \<open>
  The loop over the passes the given inputs allow; when the inputs run out the loop is
  still running (\<open>Next\<close>). Leaving the loop by its condition publishes \<^verbatim>\<open>all off\<close>.
\<close>

fun run_experiment_loop ::
  "entropy \<Rightarrow> trial list \<Rightarrow> real \<Rightarrow> xin list \<Rightarrow> session \<Rightarrow> (session, session) flow" where
  "run_experiment_loop g trials experiment_duration [] s = Next s"
| "run_experiment_loop g trials experiment_duration (inp # inps) s =
     (if x_clock_loop inp - x_start_time s \<le> experiment_duration then
        (case run_experiment_iter g trials inp s of
           Exit s' \<Rightarrow> Exit s'
         | Next s' \<Rightarrow> run_experiment_loop g trials experiment_duration inps s')
      else Exit (x_emit [Publish AllRobots ''off''] s))"

definition run_experiment ::
  "entropy \<Rightarrow> int \<Rightarrow> int \<Rightarrow> int list \<Rightarrow> real \<Rightarrow> xin list \<Rightarrow> session
     \<Rightarrow> py_error + (session, session) flow" where
  "run_experiment g num_rep duration cue clock0 inps s =
     (case generate_trials g (x_rng s) num_rep duration start_offset 10 cue [0, 1] of
        Inl e \<Rightarrow> Inl e
      | Inr trials \<Rightarrow>
          (if num_rep \<noteq> 0 \<and> trials = [] then Inl IndexError
           else
             (let experiment_duration =
                    (if num_rep \<noteq> 0 then real_of_int (offset (last trials) + end_offset)
                     else real_of_int duration);
                  draws = (if num_rep \<noteq> 0 then (length trials - 1) + length trials
                           else length trials);
                  s1 = (x_emit [Play 0 ''whitenoise.wav'', Publish AllRobots ''on''] s)
                         \<lparr>x_start_time := clock0, x_elapsed_time := 0, x_trial_index := 0,
                           x_cue_emitted := False, robot_state_g := 0, cue_state_g := 0,
                           x_rng := x_rng s + draws\<rparr>
              in Inr (run_experiment_loop g trials experiment_duration inps s1))))"


section \<open>Orchestrator with detection and response windows\<close>

text \<open>
  The entries of \<^verbatim>\<open>experiment_params\<close> that change (prefix \<open>ep_\<close>) and the locals of
  \<^verbatim>\<open>run_training\<close>, with the position in the entropy stream and the events so far.
\<close>

record training =
  ep_robot_state :: int
  ep_cue_state :: int
  ep_stop_state :: int
  ep_robot_stop_id :: int
  trial_index :: nat
  robot_stopped :: bool
  robot_detected :: bool
  trial_finished :: bool
  in_trial :: bool
  start_time :: real
  elapsed_time :: real
  robot_stop_time :: real
  rng :: nat
  trace :: "event list"

text \<open>
  The readings of one pass: the clock where the elapsed time is measured, where the robot
  is stopped and where the trial is resolved; the detection button; the two response
  buttons, read once in the condition of the response window and once more where the
  feedback is chosen; the stop pin (\<open>1\<close> while not pressed).
\<close>

record tin =
  clock_elapsed :: real
  clock_stop :: real
  clock_resolve :: real
  user_main :: bool
  user_long_gate :: bool
  user_short_gate :: bool
  user_long :: bool
  user_short :: bool
  stop_pin :: bool

definition emit :: "event list \<Rightarrow> training \<Rightarrow> training" where
  "emit es s = s\<lparr>trace := trace s @ es\<rparr>"

definition handle_trial :: "entropy \<Rightarrow> trial \<Rightarrow> bool \<Rightarrow> training \<Rightarrow> training" where
  "handle_trial g trial stop_robot s0 =
     (let s = s0\<lparr>ep_stop_state := effect_of trial + 1\<rparr>;
          cue = cue_of trial;
          s1 = (if cue = 0 then s\<lparr>ep_cue_state := 1\<rparr>
                else if cue = 1 then (emit [Play 1 ''sine.wav''] s)\<lparr>ep_cue_state := 2\<rparr>
                else if cue = 2 then (emit vest_events s)\<lparr>ep_cue_state := 3\<rparr>
                else if cue = 3 then
                  (emit (Play 1 ''sine.wav'' # vest_events) s)\<lparr>ep_cue_state := 4\<rparr>
                else s)
      in if stop_robot then
           (let s2 = (if ep_robot_stop_id s1 = - 1
                      then s1\<lparr>ep_robot_stop_id := randint_val g (rng s1) 0 (num_robots - 1),
                              rng := Suc (rng s1)\<rparr>
                      else s1)
            in (emit [Publish (Robot (ep_robot_stop_id s2)) ''pause'',
                      PushRobotId (ep_robot_stop_id s2 + 1)] s2)\<lparr>ep_robot_state := 1\<rparr>)
         else s1)"

definition end_pause_timing :: "training \<Rightarrow> training" where
  "end_pause_timing s =
     (let s1 = (if ep_robot_stop_id s \<noteq> - 1
                then emit [Publish (Robot (ep_robot_stop_id s)) ''go''] s else s)
      in s1\<lparr>ep_robot_state := 0, ep_cue_state := 0, ep_stop_state := 0\<rparr>)"

definition reset_robots :: "training \<Rightarrow> training" where
  "reset_robots s = emit [Publish AllRobots ''off'', Sleep (1 / 2), Publish Led ''0''] s"

text \<open>The bisection period \<^verbatim>\<open>0.2 + 0.1 * trial[2]\<close>, in exact arithmetic.\<close>

definition bisection_period :: "trial \<Rightarrow> real" where
  "bisection_period trial = 2 / 10 + 1 / 10 * real_of_int (effect_of trial)"

text \<open>The body of the main loop of \<^verbatim>\<open>run_training\<close>, one definition for each of its steps.\<close>

definition update_elapsed :: "tin \<Rightarrow> training \<Rightarrow> training" where
  "update_elapsed inp s =
     (if \<not> in_trial s then s\<lparr>elapsed_time := clock_elapsed inp - start_time s\<rparr> else s)"

definition check_trial_due :: "entropy \<Rightarrow> trial list \<Rightarrow> tin \<Rightarrow> training \<Rightarrow> training" where
  "check_trial_due g trials inp s =
     (if trial_index s < length trials \<and> \<not> robot_stopped s
         \<and> elapsed_time s \<ge> real_of_int (offset (trials ! trial_index s)) \<and> \<not> in_trial s
      then (handle_trial g (trials ! trial_index s) True s)
             \<lparr>robot_stopped := True, robot_stop_time := clock_stop inp, in_trial := True\<rparr>
      else s)"

definition check_detected :: "bool \<Rightarrow> bool \<Rightarrow> trial list \<Rightarrow> tin \<Rightarrow> training \<Rightarrow> training" where
  "check_detected is_training is_test trials inp s =
     (if trial_index s < length trials \<and> robot_stopped s \<and> user_main inp then
        (let trial = trials ! trial_index s;
             s1 = (if is_training then
                     (if effect_of trial = 0 then emit [Play 1 ''Short.wav''] s
                      else if effect_of trial = 6 then emit [Play 1 ''Long.wav''] s
                      else s)\<lparr>trial_finished := True\<rparr>
                   else s\<lparr>robot_detected := True\<rparr>);
             s2 = emit [Sleep (bisection_period trial)] s1;
             s3 = end_pause_timing s2;
             s4 = (if \<not> is_test \<and> \<not> is_training then s3\<lparr>ep_robot_stop_id := - 1\<rparr> else s3);
             s5 = (if \<not> is_training then emit [Publish Led ''1''] s4 else s4)
         in s5\<lparr>robot_stopped := False\<rparr>)
      else s)"

definition wait_response :: "trial list \<Rightarrow> tin \<Rightarrow> training \<Rightarrow> training" where
  "wait_response trials inp s =
     (if trial_index s < length trials \<and> robot_detected s
         \<and> (user_long_gate inp \<or> user_short_gate inp) then
        (let trial = trials ! trial_index s;
             s1 = (if user_long inp then
                     (if effect_of trial = 0
                        then emit [Play 1 ''Wrong.wav'', Publish Led ''3''] s
                      else if effect_of trial = 6
                        then emit [Play 1 ''Correct.wav'', Publish Led ''2''] s
                      else s)
                   else s);
             s2 = (if user_short inp then
                     (if effect_of trial = 0
                        then emit [Play 1 ''Correct.wav'', Publish Led ''2''] s1
                      else if effect_of trial = 6
                        then emit [Play 1 ''Wrong.wav'', Publish Led ''3''] s1
                      else s1)
                   else s1)
         in s2\<lparr>robot_detected := False, trial_finished := True\<rparr>)
      else s)"

definition finish_trial :: "tin \<Rightarrow> training \<Rightarrow> training" where
  "finish_trial inp s =
     (if trial_finished s then
        (emit [Publish Led ''0''] (s\<lparr>trial_finished := False, in_trial := False\<rparr>))
          \<lparr>trial_index := trial_index s + 1,
            start_time := start_time s + (clock_resolve inp - robot_stop_time s)\<rparr>
      else s)"

definition run_training_iter ::
  "entropy \<Rightarrow> bool \<Rightarrow> bool \<Rightarrow> trial list \<Rightarrow> tin \<Rightarrow> training \<Rightarrow> training" where
  "run_training_iter g is_training is_test trials inp s =
     finish_trial inp
       (wait_response trials inp
         (check_detected is_training is_test trials inp
           (check_trial_due g trials inp
             (update_elapsed inp s))))"

text \<open>
  The loop over the passes the given inputs allow; it ends by its condition or by the
  \<^verbatim>\<open>break\<close> on the stop button, and the result is the state at that point (or after the
  last input).
\<close>

fun run_training_loop ::
  "entropy \<Rightarrow> bool \<Rightarrow> bool \<Rightarrow> trial list \<Rightarrow> real \<Rightarrow> tin list \<Rightarrow> training \<Rightarrow> training" where
  "run_training_loop g is_training is_test trials total_duration [] s = s"
| "run_training_loop g is_training is_test trials total_duration (inp # inps) s =
     (if elapsed_time s \<le> total_duration then
        (let s' = run_training_iter g is_training is_test trials inp s
         in if \<not> stop_pin inp then s'
            else run_training_loop g is_training is_test trials total_duration inps s')
      else s)"

text \<open>
  The state with which the main loop is entered: the robots reset, the white noise
  started, the clock started at \<open>clock0\<close>, and the robot of a training or test session
  selected and switched on.
\<close>

definition session_start :: "entropy \<Rightarrow> bool \<Rightarrow> bool \<Rightarrow> real \<Rightarrow> training \<Rightarrow> training" where
  "session_start g is_training is_test clock0 s =
     (let s1 = (emit [Play 0 ''whitenoise.wav''] (reset_robots s))
                 \<lparr>ep_cue_state := 0, ep_robot_state := 0, trial_index := 0,
                   robot_stopped := False, robot_detected := False, trial_finished := False,
                   in_trial := False, start_time := clock0, elapsed_time := 0,
                   robot_stop_time := 0\<rparr>
      in if is_training \<or> is_test then
           (let rid = randint_val g (rng s1) 0 (num_robots - 1)
            in (emit [Publish (Robot rid) ''on''] s1)
                 \<lparr>ep_robot_stop_id := rid, rng := Suc (rng s1)\<rparr>)
         else (emit [Publish AllRobots ''on''] s1)\<lparr>ep_robot_stop_id := - 1\<rparr>)"

definition run_training ::
  "entropy \<Rightarrow> bool \<Rightarrow> bool \<Rightarrow> int \<Rightarrow> int list \<Rightarrow> int list \<Rightarrow> real \<Rightarrow> tin list \<Rightarrow> training
     \<Rightarrow> py_error + training" where
  "run_training g is_training is_test num_repeats cue_types effect_types clock0 inps s =
     (case generate_trials_timing g (rng s) num_repeats 0 30 10 cue_types effect_types 8 12 of
        Inl e \<Rightarrow> Inl e
      | Inr trials \<Rightarrow>
          (if trials = [] then Inl IndexError
           else
             (let total_duration = real_of_int (offset (last trials) + 10);
                  s1 = s\<lparr>rng := rng s + (length trials - 1) + length trials\<rparr>;
                  s2 = session_start g is_training is_test clock0 s1
              in Inr (reset_robots
                        (run_training_loop g is_training is_test trials total_duration inps s2)))))"

text \<open>The feedback of a response: the two sounds and the two LED colours that score it.\<close>

fun is_feedback :: "event \<Rightarrow> bool" where
  "is_feedback (Play c f) = (f = ''Correct.wav'' \<or> f = ''Wrong.wav'')"
| "is_feedback (Publish t c) = (t = Led \<and> (c = ''2'' \<or> c = ''3''))"
| "is_feedback _ = False"

text \<open>The robot identifiers addressed by the events.\<close>

fun addressed :: "event \<Rightarrow> int list" where
  "addressed (Publish (Robot r) c) = [r]"
| "addressed _ = []"

definition addressed_robots :: "event list \<Rightarrow> int list" where
  "addressed_robots es = concat (map addressed es)"


section \<open>Robot controller\<close>

text \<open>
  The locals of \<^verbatim>\<open>main\<close> that the loop changes, and the two motor targets of the robot.
  \<^verbatim>\<open>robot_state\<close> and \<^verbatim>\<open>robot_action\<close> are strings: a received command is stored as it
  comes.
\<close>

record controller =
  robot_state :: string
  robot_action :: string
  action_start_time :: real
  action_duration :: real
  rotation_direction :: int
  motor_left :: int
  motor_right :: int

text \<open>
  The readings of one pass of the control loop: the two sensor groups, the clock at each
  place it is read, and the outcomes of \<^verbatim>\<open>random.uniform(0.5, 1.5)\<close> and
  \<^verbatim>\<open>random.choice([-1, 1])\<close>.
\<close>

record sensors =
  prox_horizontal :: "int list"
  prox_ground_reflected :: "int list"
  clock_obstacle :: real
  clock_line :: real
  clock_check :: real
  clock_restart :: real
  uniform_avoid :: real
  uniform_restart :: real
  choice_sign :: int

definition robot_speed :: int where "robot_speed = 250"
definition back_duration :: real where "back_duration = 1"

definition detect_obstacle :: "int list \<Rightarrow> int \<Rightarrow> bool" where
  "detect_obstacle prox_values threshold = (\<exists>v \<in> set prox_values. v > threshold)"

definition detect_line :: "int list \<Rightarrow> int \<Rightarrow> py_error + nat" where
  "detect_line prox_values threshold =
     (case prox_values of
        [] \<Rightarrow> Inl IndexError
      | left # others \<Rightarrow>
          (if left < threshold then Inr 1
           else (case others of
                   [] \<Rightarrow> Inl IndexError
                 | right # _ \<Rightarrow> (if right < threshold then Inr 2 else Inr 0))))"

text \<open>
  A received message is given as the token list that \<^verbatim>\<open>.decode('utf-8').split()\<close> makes
  of it; \<open>None\<close> is \<^verbatim>\<open>zmq.Again\<close>, no message pending. Unpacking anything but two tokens
  into \<^verbatim>\<open>topic, data\<close> raises \<^verbatim>\<open>ValueError\<close>.
\<close>

definition receive ::
  "string \<Rightarrow> string list option \<Rightarrow> 'a controller_scheme \<Rightarrow> py_error + 'a controller_scheme" where
  "receive robot_id msg s =
     (case msg of
        None \<Rightarrow> Inr s
      | Some tokens \<Rightarrow>
          (case tokens of
             [topic, data] \<Rightarrow>
               (if topic = ''all'' then Inr (s\<lparr>robot_state := data\<rparr>)
                else if topic = robot_id then Inr (s\<lparr>robot_action := data\<rparr>)
                else Inr s)
           | _ \<Rightarrow> Inl ValueError))"

text \<open>The reaction to sensors while the directive is \<^verbatim>\<open>on\<close>, by the current action.\<close>

definition react :: "sensors \<Rightarrow> 'a controller_scheme \<Rightarrow> py_error + 'a controller_scheme" where
  "react inp s =
     (if robot_action s = ''stop'' then Inr (s\<lparr>robot_action := ''go''\<rparr>)
      else if robot_action s = ''pause'' then Inr (s\<lparr>action_duration := 0\<rparr>)
      else if robot_action s = ''go'' then
        (let s1 = (if detect_obstacle (take 5 (prox_horizontal inp)) 1000
                   then s\<lparr>robot_action := ''avoid'', action_duration := uniform_avoid inp,
                          rotation_direction := choice_sign inp,
                          action_start_time := clock_obstacle inp\<rparr>
                   else s)
         in (case detect_line (prox_ground_reflected inp) 300 of
               Inl e \<Rightarrow> Inl e
             | Inr line_detection \<Rightarrow>
                 (if line_detection = 1
                    then Inr (s1\<lparr>robot_action := ''back'', action_duration := back_duration,
                                  rotation_direction := 1, action_start_time := clock_line inp\<rparr>)
                  else if line_detection = 2
                    then Inr (s1\<lparr>robot_action := ''back'', action_duration := back_duration,
                                  rotation_direction := - 1, action_start_time := clock_line inp\<rparr>)
                  else Inr s1)))
      else if robot_action s = ''back'' then
        (if detect_obstacle (drop (length (prox_horizontal inp) - 2) (prox_horizontal inp)) 1000
         then Inr (s\<lparr>robot_action := ''avoid'', action_duration := uniform_avoid inp,
                      rotation_direction := choice_sign inp,
                      action_start_time := clock_obstacle inp\<rparr>)
         else Inr s)
      else Inr s)"

definition check_timer :: "sensors \<Rightarrow> 'a controller_scheme \<Rightarrow> 'a controller_scheme" where
  "check_timer inp s =
     (if action_duration s > 0 \<and> clock_check inp - action_start_time s > action_duration s then
        (if robot_action s = ''back''
         then s\<lparr>robot_action := ''avoid'', action_duration := uniform_restart inp,
                action_start_time := clock_restart inp\<rparr>
         else s\<lparr>robot_action := ''go'', action_duration := 0\<rparr>)
      else s)"

definition handle_state :: "sensors \<Rightarrow> 'a controller_scheme \<Rightarrow> py_error + 'a controller_scheme" where
  "handle_state inp s =
     (if robot_state s = ''off'' then Inr (s\<lparr>robot_action := ''stop''\<rparr>)
      else if robot_state s = ''on'' then
        (case react inp s of Inl e \<Rightarrow> Inl e | Inr s1 \<Rightarrow> Inr (check_timer inp s1))
      else Inr s)"

definition execute_action :: "'a controller_scheme \<Rightarrow> 'a controller_scheme" where
  "execute_action s =
     (if robot_action s = ''go''
        then s\<lparr>motor_left := robot_speed, motor_right := robot_speed\<rparr>
      else if robot_action s = ''avoid''
        then s\<lparr>motor_left := rotation_direction s * robot_speed,
               motor_right := - rotation_direction s * robot_speed\<rparr>
      else if robot_action s = ''back''
        then s\<lparr>motor_left := - robot_speed, motor_right := - robot_speed\<rparr>
      else if robot_action s = ''stop'' \<or> robot_action s = ''pause''
        then s\<lparr>motor_left := 0, motor_right := 0\<rparr>
      else s)"

text \<open>The control tick: the state handling and the actuation that follow the receive.\<close>

definition control_tick :: "sensors \<Rightarrow> 'a controller_scheme \<Rightarrow> py_error + 'a controller_scheme" where
  "control_tick inp s =
     (case handle_state inp s of Inl e \<Rightarrow> Inl e | Inr s1 \<Rightarrow> Inr (execute_action s1))"

text \<open>
  One pass of the loop of \<^verbatim>\<open>main\<close>. An exception anywhere in the pass reaches the handler
  around the loop, which sets both motor targets to \<open>0\<close>; \<^verbatim>\<open>main\<close> then returns, and what
  remains is the pair of motor targets (\<open>Exit\<close>).
\<close>

definition main_iter ::
  "string \<Rightarrow> string list option \<Rightarrow> sensors \<Rightarrow> controller \<Rightarrow> (controller, int \<times> int) flow" where
  "main_iter robot_id msg inp s =
     (case receive robot_id msg s of
        Inl e \<Rightarrow> Exit (0, 0)
      | Inr s1 \<Rightarrow>
          (case control_tick inp s1 of
             Inl e \<Rightarrow> Exit (0, 0)
           | Inr s2 \<Rightarrow> Next s2))"

fun main_loop ::
  "string \<Rightarrow> (string list option \<times> sensors) list \<Rightarrow> controller \<Rightarrow> (controller, int \<times> int) flow" where
  "main_loop robot_id [] s = Next s"
| "main_loop robot_id ((msg, inp) # later) s =
     (case main_iter robot_id msg inp s of
        Exit out \<Rightarrow> Exit out
      | Next s' \<Rightarrow> main_loop robot_id later s')"

text \<open>The state in which the loop is entered; the motor targets are what the robot holds.\<close>

definition initial_controller :: "int \<Rightarrow> int \<Rightarrow> controller" where
  "initial_controller left right =
     \<lparr>robot_state = ''off'', robot_action = ''stop'', action_start_time = 0,
      action_duration = 0, rotation_direction = 0, motor_left = left, motor_right = right\<rparr>"

subsection \<open>The controller of the timing study\<close>

text \<open>
  The same loop with the LED targets added. The robot compares the topic with
  \<^verbatim>\<open>str(robot.id)\<close>, the identifier of the connected node, given here as \<open>node_id\<close>.
\<close>

record controller_leds = controller +
  leds_top :: "int list"
  leds_bottom_left :: "int list"
  leds_bottom_right :: "int list"
  leds_circle :: "int list"

definition set_leds :: "string \<Rightarrow> controller_leds \<Rightarrow> controller_leds" where
  "set_leds data s =
     (if data = ''1'' then
        s\<lparr>leds_top := [32, 32, 32], leds_bottom_left := [32, 32, 32],
          leds_bottom_right := [32, 32, 32], leds_circle := [32, 32, 32, 32, 32, 32, 32, 32]\<rparr>
      else if data = ''2'' then
        s\<lparr>leds_top := [0, 32, 0], leds_bottom_left := [0, 32, 0], leds_bottom_right := [0, 32, 0]\<rparr>
      else if data = ''3'' then
        s\<lparr>leds_top := [32, 0, 0], leds_bottom_left := [32, 0, 0], leds_bottom_right := [32, 0, 0]\<rparr>
      else if data = ''4'' then
        s\<lparr>leds_top := [0, 0, 32], leds_bottom_left := [0, 0, 32], leds_bottom_right := [0, 0, 32]\<rparr>
      else
        s\<lparr>leds_top := [0, 0, 0], leds_bottom_left := [0, 0, 0], leds_bottom_right := [0, 0, 0],
          leds_circle := [0, 0, 0, 0, 0, 0, 0, 0]\<rparr>)"

definition receive_timing ::
  "string \<Rightarrow> string list option \<Rightarrow> controller_leds \<Rightarrow> py_error + controller_leds" where
  "receive_timing node_id msg s =
     (case msg of
        None \<Rightarrow> Inr s
      | Some tokens \<Rightarrow>
          (case tokens of
             [topic, data] \<Rightarrow>
               (if topic = ''all'' then Inr (s\<lparr>robot_state := data\<rparr>)
                else if topic = node_id then
                  (if data = ''on'' then Inr (s\<lparr>robot_state := ''on''\<rparr>)
                   else Inr (s\<lparr>robot_action := data\<rparr>))
                else if topic = ''led'' then Inr (set_leds data s)
                else Inr s)
           | _ \<Rightarrow> Inl ValueError))"

definition main_iter_timing ::
  "string \<Rightarrow> string list option \<Rightarrow> sensors \<Rightarrow> controller_leds
     \<Rightarrow> (controller_leds, int \<times> int) flow" where
  "main_iter_timing node_id msg inp s =
     (case receive_timing node_id msg s of
        Inl e \<Rightarrow> Exit (0, 0)
      | Inr s1 \<Rightarrow>
          (case control_tick inp s1 of
             Inl e \<Rightarrow> Exit (0, 0)
           | Inr s2 \<Rightarrow> Next s2))"

text \<open>The closed command vocabulary of the robot topics.\<close>

definition vocabulary :: "string list" where
  "vocabulary = [''on'', ''off'', ''pause'', ''go'']"


section \<open>Example inputs\<close>

text \<open>Sensors that see neither an obstacle nor a line.\<close>

definition quiet_sensors :: sensors where
  "quiet_sensors =
     \<lparr>prox_horizontal = [0, 0, 0, 0, 0, 0, 0], prox_ground_reflected = [500, 500],
      clock_obstacle = 10, clock_line = 10, clock_check = 10, clock_restart = 10,
      uniform_avoid = 1, uniform_restart = 1, choice_sign = 1\<rparr>"

text \<open>A controller switched off in the middle of an avoidance turn, its timer running.\<close>

definition turning_off :: controller where
  "turning_off =
     \<lparr>robot_state = ''off'', robot_action = ''avoid'', action_start_time = 9,
      action_duration = 3 / 2, rotation_direction = 1, motor_left = 250, motor_right = - 250\<rparr>"

text \<open>A controller driving forward, and the same with LED targets.\<close>

definition driving :: controller where
  "driving =
     \<lparr>robot_state = ''on'', robot_action = ''go'', action_start_time = 0,
      action_duration = 0, rotation_direction = 0, motor_left = 250, motor_right = 250\<rparr>"

definition driving_leds :: controller_leds where
  "driving_leds =
     \<lparr>robot_state = ''on'', robot_action = ''go'', action_start_time = 0,
      action_duration = 0, rotation_direction = 0, motor_left = 250, motor_right = 250,
      leds_top = [0, 0, 0], leds_bottom_left = [0, 0, 0], leds_bottom_right = [0, 0, 0],
      leds_circle = [0, 0, 0, 0, 0, 0, 0, 0]\<rparr>"

text \<open>
  A session of the orchestrator without response window, clock started at \<open>100\<close>, the
  cue of the first trial emitted and no robot paused; and the same with robot \<open>3\<close> paused.
\<close>

definition cued :: session where
  "cued =
     \<lparr>robot_state_g = 0, cue_state_g = 1, robot_stop_id_g = 0, x_start_time = 100,
      x_elapsed_time = 0, x_trial_index = 0, x_cue_emitted = True, x_rng = 0, x_events = []\<rparr>"

definition paused :: session where
  "paused =
     \<lparr>robot_state_g = 1, cue_state_g = 1, robot_stop_id_g = 3, x_start_time = 100,
      x_elapsed_time = 31, x_trial_index = 0, x_cue_emitted = True, x_rng = 1, x_events = []\<rparr>"

definition at_clock :: "real \<Rightarrow> xin" where
  "at_clock t = \<lparr>x_clock_loop = t, x_clock = t, x_stop_pin = True\<rparr>"

text \<open>
  States of the orchestrator with response window: before a session; with robot \<open>3\<close>
  stopped for the current trial and waiting for detection; and in the response window.
  The readings of a pass at clock \<open>t\<close> with the given buttons down.
\<close>

definition fresh :: training where
  "fresh =
     \<lparr>ep_robot_state = - 1, ep_cue_state = - 1, ep_stop_state = - 1, ep_robot_stop_id = - 1,
      trial_index = 0, robot_stopped = False, robot_detected = False, trial_finished = False,
      in_trial = False, start_time = 0, elapsed_time = 0, robot_stop_time = 0, rng = 0,
      trace = []\<rparr>"

definition waiting_detection :: training where
  "waiting_detection =
     \<lparr>ep_robot_state = 1, ep_cue_state = 1, ep_stop_state = 1, ep_robot_stop_id = 3,
      trial_index = 0, robot_stopped = True, robot_detected = False, trial_finished = False,
      in_trial = True, start_time = 1000, elapsed_time = 30, robot_stop_time = 1030, rng = 4,
      trace = []\<rparr>"

definition waiting_response :: training where
  "waiting_response =
     \<lparr>ep_robot_state = 0, ep_cue_state = 0, ep_stop_state = 0, ep_robot_stop_id = 3,
      trial_index = 0, robot_stopped = False, robot_detected = True, trial_finished = False,
      in_trial = True, start_time = 1000, elapsed_time = 30, robot_stop_time = 1030, rng = 4,
      trace = []\<rparr>"

definition readings :: "real \<Rightarrow> bool \<Rightarrow> bool \<Rightarrow> bool \<Rightarrow> tin" where
  "readings t main long short =
     \<lparr>clock_elapsed = t, clock_stop = t, clock_resolve = t, user_main = main,
      user_long_gate = long, user_short_gate = short, user_long = long, user_short = short,
      stop_pin = True\<rparr>"

text \<open>
  A state is bound to robot \<open>rid\<close> from position \<open>n\<close> of its trace on: the recorded
  identifier is \<open>rid\<close>, no draw has been made since position \<open>k\<close> of the entropy stream, and
  every directive after the first \<open>n\<close> events that addresses a robot addresses \<open>rid\<close>.
\<close>

definition bound_to :: "int \<Rightarrow> nat \<Rightarrow> nat \<Rightarrow> training \<Rightarrow> bool" where
  "bound_to rid k n s =
     (ep_robot_stop_id s = rid \<and> rng s = k \<and> n \<le> length (trace s)
      \<and> list_all (\<lambda>r. r = rid) (addressed_robots (drop n (trace s))))"

section \<open>Properties of the trial generator\<close>

lemma randint_range: "randint g k lo hi = Inr d \<Longrightarrow> lo \<le> d \<and> d \<le> hi"
proof -
  assume a: "randint g k lo hi = Inr d"
  then have le: "lo \<le> hi" and d: "d = lo + int (g k mod nat (hi - lo + 1))"
    by (auto simp: randint_def randint_val_def split: if_splits)
  have "g k mod nat (hi - lo + 1) < nat (hi - lo + 1)" using le by simp
  then show ?thesis using le d by linarith
qed

lemma assign_offsets_content:
  "assign_offsets g k lo hi ts cs = Inr trials \<Longrightarrow> map (\<lambda>t. (cue_of t, effect_of t)) trials = cs"
  by (induction cs arbitrary: k ts trials) (auto split: sum.splits)

lemma assign_offsets_hd:
  "assign_offsets g k lo hi ts cs = Inr trials \<Longrightarrow> trials \<noteq> [] \<Longrightarrow> offset (hd trials) = ts"
  by (cases cs) (auto split: sum.splits)

lemma assign_offsets_gaps:
  "assign_offsets g k lo hi ts cs = Inr trials \<Longrightarrow>
     successively (\<lambda>a b. lo \<le> b - a \<and> b - a \<le> hi) (map offset trials)"
proof (induction cs arbitrary: k ts trials)
  case Nil
  then show ?case by simp
next
  case (Cons c cs)
  obtain cue eff where c: "c = (cue, eff)" by (cases c)
  from Cons.prems c obtain d later where
    d: "randint g k lo hi = Inr d" and
    l: "assign_offsets g (Suc k) lo hi (ts + d) cs = Inr later" and
    t: "trials = (ts, cue, eff) # later"
    by (auto split: sum.splits)
  have ih: "successively (\<lambda>a b. lo \<le> b - a \<and> b - a \<le> hi) (map offset later)"
    by (rule Cons.IH [OF l])
  show ?case
  proof (cases later)
    case Nil
    then show ?thesis using t by simp
  next
    case (Cons x xs)
    then have "offset x = ts + d" using assign_offsets_hd [OF l] by simp
    then show ?thesis using t Cons ih randint_range [OF d] by simp
  qed
qed

lemma gaps_increasing:
  "1 \<le> lo \<Longrightarrow> successively (\<lambda>a b. lo \<le> b - a \<and> b - a \<le> hi) (xs :: int list) \<Longrightarrow> sorted_wrt (<) xs"
proof -
  assume lo: "1 \<le> lo" and s: "successively (\<lambda>a b. lo \<le> b - a \<and> b - a \<le> hi) xs"
  have "successively (<) xs"
    by (rule successively_mono [OF s]) (use lo in auto)
  then show ?thesis by (simp add: successively_conv_sorted_wrt)
qed

lemma assign_offsets_total:
  "lo \<le> hi \<Longrightarrow> \<exists>trials. assign_offsets g k lo hi ts cs = Inr trials"
proof (induction cs arbitrary: k ts)
  case Nil
  then show ?case by simp
next
  case (Cons c cs)
  obtain cue eff where c: "c = (cue, eff)" by (cases c)
  from Cons.IH [OF Cons.prems] obtain later where
    "assign_offsets g (Suc k) lo hi (ts + randint_val g k lo hi) cs = Inr later" by blast
  then show ?case using Cons.prems c by (simp add: randint_def)
qed

lemma shuffle_from_length: "length (shuffle_from g k m xs) = length xs"
  by (induction m arbitrary: k xs) (simp_all add: Let_def)

lemma shuffle_from_mset: "m < length xs \<Longrightarrow> mset (shuffle_from g k m xs) = mset xs"
proof (induction m arbitrary: k xs)
  case 0
  then show ?case by simp
next
  case (Suc m)
  let ?j = "g k mod (Suc m + 1)"
  have j: "?j < length xs" proof -
    have "?j < Suc m + 1" by (rule mod_less_divisor) simp
    then show ?thesis using Suc.prems by linarith
  qed
  have "mset (xs[Suc m := xs ! ?j, ?j := xs ! Suc m]) = mset xs"
    using mset_swap [OF j Suc.prems] .
  moreover have "m < length (xs[Suc m := xs ! ?j, ?j := xs ! Suc m])" using Suc.prems by simp
  ultimately show ?case using Suc.IH by (simp add: Let_def)
qed

lemma shuffle_mset: "mset (shuffle g k xs) = mset xs"
  by (cases xs) (simp_all add: shuffle_def shuffle_from_mset)


lemma mset_concat_replicate: "mset (concat (replicate n xs)) = repeat_mset n (mset xs)"
  by (induction n) simp_all

lemma combinations_product:
  "concat (map (\<lambda>cue. map (\<lambda>effect. (cue, effect)) effect_types) cue_types)
     = List.product cue_types effect_types"
  by (simp add: product_concat_map)

lemma generate_trials_timing_repeats:
  "num_repeats \<noteq> 0 \<Longrightarrow>
   generate_trials_timing g k num_repeats duration start_off end_off cue_types effect_types lo hi =
     assign_offsets g (k + (length (concat (replicate (nat num_repeats) (List.product cue_types effect_types))) - 1))
       lo hi start_off
       (shuffle g k (concat (replicate (nat num_repeats) (List.product cue_types effect_types))))"
  by (simp add: generate_trials_timing_def Let_def combinations_product)

lemma generate_trials_repeats:
  "num_rep \<noteq> 0 \<Longrightarrow>
   generate_trials g k num_rep duration start_off end_off cue_types effect_types =
     assign_offsets g (k + (length (concat (replicate (nat num_rep) (List.product cue_types effect_types))) - 1))
       min_interval max_interval start_off
       (shuffle g k (concat (replicate (nat num_rep) (List.product cue_types effect_types))))"
  by (simp add: generate_trials_def Let_def combinations_product)

lemma generate_trials_timing_via_offsets:
  "generate_trials_timing g k n d s e cues effs lo hi = Inr trials \<Longrightarrow>
     \<exists>k' cs. assign_offsets g k' lo hi s cs = Inr trials"
  unfolding generate_trials_timing_def Let_def
  by (auto split: if_splits list.splits intro: assign_offsets.simps(1))

lemma generate_trials_via_offsets:
  "generate_trials g k n d s e cues effs = Inr trials \<Longrightarrow>
     \<exists>k' cs. assign_offsets g k' min_interval max_interval s cs = Inr trials"
  unfolding generate_trials_def Let_def
  by (auto split: if_splits list.splits intro: assign_offsets.simps(1))

lemma assign_offsets_spacing:
  assumes "assign_offsets g k lo hi s cs = Inr trials" and "1 \<le> lo"
  shows "spacing_law lo hi s trials"
  unfolding spacing_law_def
  using assign_offsets_hd [OF assms(1)] assign_offsets_gaps [OF assms(1)]
    gaps_increasing [OF assms(2) assign_offsets_gaps [OF assms(1)]]
  by blast

text \<open>
  Claim C2. Every timeline that either \<^verbatim>\<open>generate_trials\<close> returns, on the
  repetition-driven and on the duration-driven branch, with a minimum interval of at
  least \<open>1\<close>, starts at the start offset, has strictly increasing offsets, and has every
  gap between consecutive offsets within the interval bounds. The orchestrator without
  response window reads the bounds from its globals, \<open>8\<close> and \<open>12\<close>.
\<close>

theorem generate_trials_spacing:
  "(1 \<le> min_iv \<and> generate_trials_timing g k n d s e cues effs min_iv max_iv = Inr trials
      \<longrightarrow> spacing_law min_iv max_iv s trials)
   \<and> (generate_trials g k n d s e cues effs = Inr trials'
      \<longrightarrow> spacing_law min_interval max_interval s trials')"
proof (intro conjI impI)
  assume a: "1 \<le> min_iv \<and> generate_trials_timing g k n d s e cues effs min_iv max_iv = Inr trials"
  then obtain k' cs where "assign_offsets g k' min_iv max_iv s cs = Inr trials"
    using generate_trials_timing_via_offsets by blast
  then show "spacing_law min_iv max_iv s trials"
    using a by (simp add: assign_offsets_spacing)
next
  assume "generate_trials g k n d s e cues effs = Inr trials'"
  then obtain k' cs where "assign_offsets g k' min_interval max_interval s cs = Inr trials'"
    using generate_trials_via_offsets by blast
  moreover have "1 \<le> min_interval" by (simp add: min_interval_def)
  ultimately show "spacing_law min_interval max_interval s trials'"
    by (rule assign_offsets_spacing)
qed

lemma timeline_repetitions_timing: "generate_trials_timing (\<lambda>k. 3 * k + 1) 0 2 0 30 10 [0, 1] [0, 1] 8 12
       = Inr [(30, 1, 0), (40, 1, 0), (48, 1, 1), (59, 0, 1), (68, 0, 0), (80, 1, 1), (90, 0, 0), (98, 0, 1)]"
  by code_simp

lemma timeline_duration: "generate_trials (\<lambda>k. 3 * k + 1) 0 0 180 30 10 [2] [0, 1]
       = Inr [(30, 2, 1), (39, 2, 1), (51, 2, 1), (61, 2, 1), (69, 2, 1),
      (80, 2, 1), (89, 2, 1), (101, 2, 1), (111, 2, 1), (119, 2, 1),
      (130, 2, 1), (139, 2, 1), (151, 2, 1), (161, 2, 1)]"
  by code_simp

theorem generate_trials_spacing_witness:
  "(1::int) \<le> 8
   \<and> generate_trials_timing (\<lambda>k. 3 * k + 1) 0 2 0 30 10 [0, 1] [0, 1] 8 12
       = Inr [(30, 1, 0), (40, 1, 0), (48, 1, 1), (59, 0, 1), (68, 0, 0), (80, 1, 1), (90, 0, 0), (98, 0, 1)]
   \<and> spacing_law 8 12 30
       [(30, 1, 0), (40, 1, 0), (48, 1, 1), (59, 0, 1), (68, 0, 0), (80, 1, 1), (90, 0, 0), (98, 0, 1)]
   \<and> generate_trials (\<lambda>k. 3 * k + 1) 0 0 180 30 10 [2] [0, 1]
       = Inr [(30, 2, 1), (39, 2, 1), (51, 2, 1), (61, 2, 1), (69, 2, 1),
      (80, 2, 1), (89, 2, 1), (101, 2, 1), (111, 2, 1), (119, 2, 1),
      (130, 2, 1), (139, 2, 1), (151, 2, 1), (161, 2, 1)]
   \<and> spacing_law min_interval max_interval 30
       [(30, 2, 1), (39, 2, 1), (51, 2, 1), (61, 2, 1), (69, 2, 1),
      (80, 2, 1), (89, 2, 1), (101, 2, 1), (111, 2, 1), (119, 2, 1),
      (130, 2, 1), (139, 2, 1), (151, 2, 1), (161, 2, 1)]"
  using timeline_repetitions_timing timeline_duration
    generate_trials_spacing [where g = "\<lambda>k. 3 * k + 1" and k = 0 and n = 2 and d = 0 and s = 30
      and e = 10 and cues = "[0, 1]" and effs = "[0, 1]" and min_iv = 8 and max_iv = 12
      and trials = "[(30, 1, 0), (40, 1, 0), (48, 1, 1), (59, 0, 1), (68, 0, 0), (80, 1, 1),
        (90, 0, 0), (98, 0, 1)]"]
    generate_trials_spacing [where g = "\<lambda>k. 3 * k + 1" and k = 0 and n = 0 and d = 180 and s = 30
      and e = 10 and cues = "[2]" and effs = "[0, 1]"
      and trials' = "[(30, 2, 1), (39, 2, 1), (51, 2, 1), (61, 2, 1), (69, 2, 1),
      (80, 2, 1), (89, 2, 1), (101, 2, 1), (111, 2, 1), (119, 2, 1),
      (130, 2, 1), (139, 2, 1), (151, 2, 1), (161, 2, 1)]"]
  by simp


lemma assign_offsets_mset:
  "assign_offsets g k lo hi ts cs = Inr trials \<Longrightarrow> content trials = mset cs"
  by (simp add: content_def assign_offsets_content)

lemma assign_offsets_length:
  "assign_offsets g k lo hi ts cs = Inr trials \<Longrightarrow> length trials = length cs"
  using assign_offsets_content [of g k lo hi ts cs trials] by (metis length_map)

lemma shuffle_length: "length (shuffle g k xs) = length xs"
  by (simp add: shuffle_def shuffle_from_length)

lemma generate_trials_timing_content:
  assumes "n \<noteq> 0" and "generate_trials_timing g k n d s e cues effs lo hi = Inr trials"
  shows "content trials = repeat_mset (nat n) (mset (List.product cues effs))"
    and "length trials = nat n * (length cues * length effs)"
  using assms assign_offsets_mset assign_offsets_length
  by (simp_all add: generate_trials_timing_repeats shuffle_mset mset_concat_replicate
      shuffle_length length_concat sum_list_replicate)

lemma generate_trials_content:
  assumes "n \<noteq> 0" and "generate_trials g k n d s e cues effs = Inr trials"
  shows "content trials = repeat_mset (nat n) (mset (List.product cues effs))"
    and "length trials = nat n * (length cues * length effs)"
  using assms assign_offsets_mset assign_offsets_length
  by (simp_all add: generate_trials_repeats shuffle_mset mset_concat_replicate
      shuffle_length length_concat sum_list_replicate)

lemma generate_trials_returns:
  "n \<noteq> 0 \<Longrightarrow> \<exists>trials. generate_trials g k n d s e cues effs = Inr trials"
  by (simp add: generate_trials_repeats assign_offsets_total min_interval_def max_interval_def)

lemma generate_trials_timing_returns:
  "n \<noteq> 0 \<Longrightarrow> lo \<le> hi \<Longrightarrow> \<exists>trials. generate_trials_timing g k n d s e cues effs lo hi = Inr trials"
  by (simp add: generate_trials_timing_repeats assign_offsets_total)

text \<open>
  Claim C3. With a positive number of repetitions, the multiset of (cue, effect) pairs
  of the returned timeline is that number of copies of the product of the cue types and
  the effect types, whatever the shuffle and the interval draws; with cue types \<open>[0, 1]\<close>,
  effect types \<open>[0, 1]\<close> and two repetitions a timeline is returned and has eight trials.
\<close>

theorem generate_trials_counterbalanced:
  "(0 < n \<and> generate_trials g k n d s e cues effs = Inr trials
      \<longrightarrow> content trials = repeat_mset (nat n) (mset (List.product cues effs)))
   \<and> (0 < n \<and> generate_trials_timing g k n d s e cues effs lo hi = Inr trials'
      \<longrightarrow> content trials' = repeat_mset (nat n) (mset (List.product cues effs)))
   \<and> (\<exists>eight. generate_trials g k 2 d s e [0, 1] [0, 1] = Inr eight \<and> length eight = 8)
   \<and> (lo \<le> hi \<longrightarrow>
        (\<exists>eight. generate_trials_timing g k 2 d s e [0, 1] [0, 1] lo hi = Inr eight \<and> length eight = 8))"
proof (intro conjI impI)
  assume "0 < n \<and> generate_trials g k n d s e cues effs = Inr trials"
  then show "content trials = repeat_mset (nat n) (mset (List.product cues effs))"
    using generate_trials_content(1) [of n g k d s e cues effs trials] by simp
next
  assume "0 < n \<and> generate_trials_timing g k n d s e cues effs lo hi = Inr trials'"
  then show "content trials' = repeat_mset (nat n) (mset (List.product cues effs))"
    using generate_trials_timing_content(1) [of n g k d s e cues effs lo hi trials'] by simp
next
  obtain eight where r: "generate_trials g k 2 d s e [0, 1] [0, 1] = Inr eight"
    using generate_trials_returns [of 2 g k d s e "[0, 1]" "[0, 1]"] by auto
  have "length eight = 8"
    using generate_trials_content(2) [OF _ r] by simp
  then show "\<exists>eight. generate_trials g k 2 d s e [0, 1] [0, 1] = Inr eight \<and> length eight = 8"
    using r by blast
next
  assume "lo \<le> hi"
  then obtain eight where r: "generate_trials_timing g k 2 d s e [0, 1] [0, 1] lo hi = Inr eight"
    using generate_trials_timing_returns [of 2 lo hi g k d s e "[0, 1]" "[0, 1]"] by auto
  have "length eight = 8"
    using generate_trials_timing_content(2) [OF _ r] by simp
  then show "\<exists>eight. generate_trials_timing g k 2 d s e [0, 1] [0, 1] lo hi = Inr eight \<and> length eight = 8"
    using r by blast
qed

lemma timeline_repetitions: "generate_trials (\<lambda>k. 3 * k + 1) 0 2 0 30 10 [0, 1] [0, 1]
       = Inr [(30, 1, 0), (40, 1, 0), (48, 1, 1), (59, 0, 1), (68, 0, 0), (80, 1, 1), (90, 0, 0), (98, 0, 1)]"
  by code_simp

theorem generate_trials_counterbalanced_witness:
  "(0::int) < 2 \<and> (8::int) \<le> 12
   \<and> generate_trials (\<lambda>k. 3 * k + 1) 0 2 0 30 10 [0, 1] [0, 1]
       = Inr [(30, 1, 0), (40, 1, 0), (48, 1, 1), (59, 0, 1), (68, 0, 0), (80, 1, 1), (90, 0, 0), (98, 0, 1)]
   \<and> generate_trials_timing (\<lambda>k. 3 * k + 1) 0 2 0 30 10 [0, 1] [0, 1] 8 12
       = Inr [(30, 1, 0), (40, 1, 0), (48, 1, 1), (59, 0, 1), (68, 0, 0), (80, 1, 1), (90, 0, 0), (98, 0, 1)]
   \<and> content [(30, 1, 0), (40, 1, 0), (48, 1, 1), (59, 0, 1), (68, 0, 0), (80, 1, 1), (90, 0, 0), (98, 0, 1)]
       = repeat_mset 2 (mset (List.product [0, 1] [0, 1]))
   \<and> (\<exists>eight. generate_trials_timing (\<lambda>k. 3 * k + 1) 0 2 0 30 10 [0, 1] [0, 1] 8 12 = Inr eight
         \<and> length eight = 8)"
  using timeline_repetitions_timing timeline_repetitions
    generate_trials_counterbalanced [where g = "\<lambda>k. 3 * k + 1" and k = 0 and n = 2 and d = 0
      and s = 30 and e = 10 and cues = "[0, 1]" and effs = "[0, 1]" and lo = 8 and hi = 12
      and trials = "[(30, 1, 0), (40, 1, 0), (48, 1, 1), (59, 0, 1), (68, 0, 0), (80, 1, 1),
        (90, 0, 0), (98, 0, 1)]"
      and trials' = "[(30, 1, 0), (40, 1, 0), (48, 1, 1), (59, 0, 1), (68, 0, 0), (80, 1, 1),
        (90, 0, 0), (98, 0, 1)]"]
  by simp



section \<open>Properties of the robot controller\<close>

lemma handle_state_off:
  "robot_state s = ''off'' \<Longrightarrow> handle_state inp s = Inr (s\<lparr>robot_action := ''stop''\<rparr>)"
  by (simp add: handle_state_def)

lemma execute_action_stop:
  "robot_action s = ''stop'' \<Longrightarrow> execute_action s = s\<lparr>motor_left := 0, motor_right := 0\<rparr>"
  by (simp add: execute_action_def)

lemma control_tick_off:
  "robot_state s = ''off'' \<Longrightarrow>
     control_tick inp s = Inr (s\<lparr>robot_action := ''stop'', motor_left := 0, motor_right := 0\<rparr>)"
  by (simp add: control_tick_def handle_state_off execute_action_stop)

lemma main_iter_off:
  "receive robot_id msg c = Inr c1 \<Longrightarrow> robot_state c1 = ''off'' \<Longrightarrow>
     main_iter robot_id msg inp c
       = Next (c1\<lparr>robot_action := ''stop'', motor_left := 0, motor_right := 0\<rparr>)"
  by (simp add: main_iter_def control_tick_off)

lemma receive_keeps_off:
  assumes "robot_state c = ''off''"
    and "msg = None \<or> (\<exists>topic data. msg = Some [topic, data] \<and> (topic \<noteq> ''all'' \<or> data = ''off''))"
  shows "\<exists>c1. receive robot_id msg c = Inr c1 \<and> robot_state c1 = ''off''"
  using assms by (auto simp: receive_def)

lemma react_keeps_directive:
  "react inp s = Inr s1 \<Longrightarrow> robot_state s1 = robot_state s"
  by (auto simp: react_def Let_def split: if_splits sum.splits)

lemma check_timer_keeps_directive: "robot_state (check_timer inp s) = robot_state s"
  by (simp add: check_timer_def)

lemma execute_action_keeps_directive: "robot_state (execute_action s) = robot_state s"
  by (simp add: execute_action_def)

lemma control_tick_keeps_directive:
  "control_tick inp s = Inr s' \<Longrightarrow> robot_state s' = robot_state s"
  by (auto simp: control_tick_def handle_state_def execute_action_keeps_directive
      check_timer_keeps_directive react_keeps_directive split: if_splits sum.splits)

lemma main_iter_stopped:
  assumes "main_iter robot_id msg inp c = Next c'" and "robot_state c' = ''off''"
  shows "robot_action c' = ''stop'' \<and> motor_left c' = 0 \<and> motor_right c' = 0"
proof -
  from assms(1) obtain c1 where r: "receive robot_id msg c = Inr c1"
    and t: "control_tick inp c1 = Inr c'"
    by (auto simp: main_iter_def split: sum.splits)
  have "robot_state c1 = ''off''"
    using control_tick_keeps_directive [OF t] assms(2) by simp
  then have "c' = c1\<lparr>robot_action := ''stop'', motor_left := 0, motor_right := 0\<rparr>"
    using t by (simp add: control_tick_off)
  then show ?thesis by simp
qed

lemma main_loop_last:
  "main_loop robot_id (passes @ [(msg, inp)]) c
     = (case main_loop robot_id passes c of
          Exit out \<Rightarrow> Exit out
        | Next c1 \<Rightarrow> main_iter robot_id msg inp c1)"
  by (induction passes arbitrary: c) (auto split: flow.splits)

lemma main_loop_stopped:
  assumes "main_loop robot_id (passes @ [(msg, inp)]) c = Next c'" and "robot_state c' = ''off''"
  shows "robot_action c' = ''stop'' \<and> motor_left c' = 0 \<and> motor_right c' = 0"
proof -
  from assms(1) obtain c1 where "main_iter robot_id msg inp c1 = Next c'"
    by (auto simp: main_loop_last split: flow.splits)
  then show ?thesis using assms(2) by (rule main_iter_stopped)
qed

lemma loop_example:
  "main_loop ''0'' [(Some [''all'', ''on''], quiet_sensors), (None, quiet_sensors),
       (Some [''all'', ''off''], quiet_sensors)] (initial_controller 7 7)
     = Next (initial_controller 0 0)"
  by code_simp


text \<open>
  Claim C1. Whatever the state of the controller (its action, its timer), when the
  directive is \<^verbatim>\<open>off\<close> as the control tick starts, the tick sets the action to \<^verbatim>\<open>stop\<close>
  and both motor targets to \<open>0\<close>. This holds of the tick itself, of a whole pass of the
  loop in which the receive leaves the directive \<^verbatim>\<open>off\<close>, and so of every pass that starts
  with the directive \<^verbatim>\<open>off\<close> and receives nothing, a message on another topic than
  \<^verbatim>\<open>all\<close>, or \<^verbatim>\<open>all off\<close>. Hence in every run of the loop, from any state, a pass that
  ends with the directive \<^verbatim>\<open>off\<close> ends with the action \<^verbatim>\<open>stop\<close> and both motor targets \<open>0\<close>.
\<close>

theorem off_forces_stop:
  "(robot_state s = ''off'' \<longrightarrow>
      (\<exists>s'. control_tick inp s = Inr s' \<and> robot_action s' = ''stop''
            \<and> motor_left s' = 0 \<and> motor_right s' = 0))
   \<and> (receive robot_id msg c = Inr c1 \<and> robot_state c1 = ''off'' \<longrightarrow>
      (\<exists>c'. main_iter robot_id msg inp c = Next c' \<and> robot_action c' = ''stop''
            \<and> motor_left c' = 0 \<and> motor_right c' = 0))
   \<and> (robot_state c = ''off''
       \<and> (msg = None \<or> (\<exists>topic data. msg = Some [topic, data] \<and> (topic \<noteq> ''all'' \<or> data = ''off'')))
      \<longrightarrow> (\<exists>c'. main_iter robot_id msg inp c = Next c' \<and> robot_action c' = ''stop''
            \<and> motor_left c' = 0 \<and> motor_right c' = 0))
   \<and> (main_loop robot_id (passes @ [(msg, inp)]) c0 = Next c2 \<and> robot_state c2 = ''off''
      \<longrightarrow> robot_action c2 = ''stop'' \<and> motor_left c2 = 0 \<and> motor_right c2 = 0)"
proof (intro conjI impI)
  assume "robot_state s = ''off''"
  then show "\<exists>s'. control_tick inp s = Inr s' \<and> robot_action s' = ''stop''
            \<and> motor_left s' = 0 \<and> motor_right s' = 0"
    by (simp add: control_tick_off)
next
  assume "receive robot_id msg c = Inr c1 \<and> robot_state c1 = ''off''"
  then show "\<exists>c'. main_iter robot_id msg inp c = Next c' \<and> robot_action c' = ''stop''
            \<and> motor_left c' = 0 \<and> motor_right c' = 0"
    by (simp add: main_iter_off)
next
  assume a: "robot_state c = ''off''
       \<and> (msg = None \<or> (\<exists>topic data. msg = Some [topic, data] \<and> (topic \<noteq> ''all'' \<or> data = ''off'')))"
  then obtain c1 where "receive robot_id msg c = Inr c1" and "robot_state c1 = ''off''"
    using receive_keeps_off [of c msg robot_id] by blast
  then show "\<exists>c'. main_iter robot_id msg inp c = Next c' \<and> robot_action c' = ''stop''
            \<and> motor_left c' = 0 \<and> motor_right c' = 0"
    by (simp add: main_iter_off)
next
  assume a: "main_loop robot_id (passes @ [(msg, inp)]) c0 = Next c2 \<and> robot_state c2 = ''off''"
  show "robot_action c2 = ''stop''" and "motor_left c2 = 0" and "motor_right c2 = 0"
    using main_loop_stopped [of robot_id passes msg inp c0 c2] a by simp_all
qed

lemma receive_go_when_off:
  "receive ''0'' (Some [''0'', ''go'']) turning_off = Inr (turning_off\<lparr>robot_action := ''go''\<rparr>)"
  by (simp add: receive_def)

theorem off_forces_stop_witness:
  "robot_state turning_off = ''off''
   \<and> receive ''0'' (Some [''0'', ''go'']) turning_off = Inr (turning_off\<lparr>robot_action := ''go''\<rparr>)
   \<and> (\<exists>s'. control_tick quiet_sensors turning_off = Inr s' \<and> robot_action s' = ''stop''
            \<and> motor_left s' = 0 \<and> motor_right s' = 0)
   \<and> (\<exists>c'. main_iter ''0'' (Some [''0'', ''go'']) quiet_sensors turning_off = Next c'
            \<and> robot_action c' = ''stop'' \<and> motor_left c' = 0 \<and> motor_right c' = 0)
   \<and> main_loop ''0'' ([(Some [''all'', ''on''], quiet_sensors), (None, quiet_sensors)]
         @ [(Some [''all'', ''off''], quiet_sensors)]) (initial_controller 7 7)
       = Next (initial_controller 0 0)
   \<and> robot_state (initial_controller 0 0) = ''off''
   \<and> robot_action (initial_controller 0 0) = ''stop''
   \<and> motor_left (initial_controller 0 0) = 0 \<and> motor_right (initial_controller 0 0) = 0"
  using receive_go_when_off loop_example
    off_forces_stop [where s = turning_off and inp = quiet_sensors and robot_id = "''0''"
      and msg = "Some [''0'', ''go'']" and c = turning_off
      and ?c1.0 = "turning_off\<lparr>robot_action := ''go''\<rparr>"]
    off_forces_stop [where robot_id = "''0''" and inp = quiet_sensors
      and msg = "Some [''all'', ''off'']"
      and passes = "[(Some [''all'', ''on''], quiet_sensors), (None, quiet_sensors)]"
      and ?c0.0 = "initial_controller 7 7" and ?c2.0 = "initial_controller 0 0"]
  by (simp add: turning_off_def initial_controller_def)


lemma receive_wrong_count:
  "length tokens \<noteq> 2 \<Longrightarrow> receive robot_id (Some tokens) s = Inl ValueError"
  by (auto simp: receive_def split: list.splits)

lemma receive_timing_wrong_count:
  "length tokens \<noteq> 2 \<Longrightarrow> receive_timing node_id (Some tokens) s = Inl ValueError"
  by (auto simp: receive_timing_def split: list.splits)

lemma main_iter_wrong_count:
  "length tokens \<noteq> 2 \<Longrightarrow> main_iter robot_id (Some tokens) inp s = Exit (0, 0)"
  by (simp add: main_iter_def receive_wrong_count)

lemma main_iter_timing_wrong_count:
  "length tokens \<noteq> 2 \<Longrightarrow> main_iter_timing node_id (Some tokens) inp s = Exit (0, 0)"
  by (simp add: main_iter_timing_def receive_timing_wrong_count)

lemma main_iter_other_topic:
  "topic \<noteq> ''all'' \<Longrightarrow> topic \<noteq> robot_id \<Longrightarrow>
     main_iter robot_id (Some [topic, data]) inp s = main_iter robot_id None inp s"
  by (simp add: main_iter_def receive_def)

lemma main_iter_timing_other_topic:
  "topic \<noteq> ''all'' \<Longrightarrow> topic \<noteq> node_id \<Longrightarrow> topic \<noteq> ''led'' \<Longrightarrow>
     main_iter_timing node_id (Some [topic, data]) inp s = main_iter_timing node_id None inp s"
  by (simp add: main_iter_timing_def receive_timing_def)

lemma main_iter_all:
  "main_iter robot_id (Some [''all'', data]) inp s
     = main_iter robot_id None inp (s\<lparr>robot_state := data\<rparr>)"
  by (simp add: main_iter_def receive_def)

lemma main_iter_own:
  "robot_id \<noteq> ''all'' \<Longrightarrow>
     main_iter robot_id (Some [robot_id, data]) inp s
       = main_iter robot_id None inp (s\<lparr>robot_action := data\<rparr>)"
  by (simp add: main_iter_def receive_def)

lemma main_iter_timing_all:
  "main_iter_timing node_id (Some [''all'', data]) inp s
     = main_iter_timing node_id None inp (s\<lparr>robot_state := data\<rparr>)"
  by (simp add: main_iter_timing_def receive_timing_def)

lemma main_iter_timing_own:
  "node_id \<noteq> ''all'' \<Longrightarrow> data \<noteq> ''on'' \<Longrightarrow>
     main_iter_timing node_id (Some [node_id, data]) inp s
       = main_iter_timing node_id None inp (s\<lparr>robot_action := data\<rparr>)"
  by (simp add: main_iter_timing_def receive_timing_def)

text \<open>
  Claim C4, as amended. A message of other than two tokens ends the loop with both motor
  targets at \<open>0\<close>, in both controllers. A message of two tokens on a topic the controller
  does not handle is ignored: the pass is the pass without a message. A message of two
  tokens on \<^verbatim>\<open>all\<close>, or on the controller's own topic, is taken whatever its command: the
  pass is the pass without a message from the state in which the command token has
  become the directive, or the action.
\<close>

theorem message_handling:
  "(length tokens \<noteq> 2 \<longrightarrow>
      main_iter robot_id (Some tokens) inp s = Exit (0, 0)
      \<and> main_iter_timing robot_id (Some tokens) inp t = Exit (0, 0))
   \<and> (topic \<noteq> ''all'' \<and> topic \<noteq> robot_id \<longrightarrow>
      main_iter robot_id (Some [topic, data]) inp s = main_iter robot_id None inp s)
   \<and> (topic \<noteq> ''all'' \<and> topic \<noteq> robot_id \<and> topic \<noteq> ''led'' \<longrightarrow>
      main_iter_timing robot_id (Some [topic, data]) inp t = main_iter_timing robot_id None inp t)
   \<and> main_iter robot_id (Some [''all'', data]) inp s
       = main_iter robot_id None inp (s\<lparr>robot_state := data\<rparr>)
   \<and> main_iter_timing robot_id (Some [''all'', data]) inp t
       = main_iter_timing robot_id None inp (t\<lparr>robot_state := data\<rparr>)
   \<and> (robot_id \<noteq> ''all'' \<longrightarrow>
      main_iter robot_id (Some [robot_id, data]) inp s
        = main_iter robot_id None inp (s\<lparr>robot_action := data\<rparr>))
   \<and> (robot_id \<noteq> ''all'' \<and> data \<noteq> ''on'' \<longrightarrow>
      main_iter_timing robot_id (Some [robot_id, data]) inp t
        = main_iter_timing robot_id None inp (t\<lparr>robot_action := data\<rparr>))"
  by (simp add: main_iter_wrong_count main_iter_timing_wrong_count main_iter_other_topic
      main_iter_timing_other_topic main_iter_all main_iter_own main_iter_timing_all
      main_iter_timing_own)


theorem message_handling_witness:
  "length [''all''] \<noteq> 2 \<and> ''10'' \<noteq> ''all'' \<and> ''10'' \<noteq> ''1'' \<and> ''10'' \<noteq> ''led''
   \<and> ''1'' \<noteq> ''all'' \<and> ''halt'' \<noteq> ''on''
   \<and> main_iter ''1'' (Some [''all'']) quiet_sensors driving = Exit (0, 0)
   \<and> main_iter_timing ''1'' (Some [''all'']) quiet_sensors driving_leds = Exit (0, 0)
   \<and> main_iter ''1'' (Some [''10'', ''halt'']) quiet_sensors driving
       = main_iter ''1'' None quiet_sensors driving
   \<and> main_iter_timing ''1'' (Some [''10'', ''halt'']) quiet_sensors driving_leds
       = main_iter_timing ''1'' None quiet_sensors driving_leds
   \<and> main_iter ''1'' (Some [''1'', ''halt'']) quiet_sensors driving
       = main_iter ''1'' None quiet_sensors (driving\<lparr>robot_action := ''halt''\<rparr>)
   \<and> main_iter_timing ''1'' (Some [''1'', ''halt'']) quiet_sensors driving_leds
       = main_iter_timing ''1'' None quiet_sensors (driving_leds\<lparr>robot_action := ''halt''\<rparr>)"
  using message_handling [where tokens = "[''all'']" and robot_id = "''1''" and topic = "''10''"
      and data = "''halt''" and inp = quiet_sensors and s = driving and t = driving_leds]
  by simp

lemma driving_no_message:
  "main_iter ''0'' None quiet_sensors driving = Next driving"
  by code_simp

lemma driving_one_token:
  "main_iter ''0'' (Some [''all'']) quiet_sensors driving = Exit (0, 0)"
  by code_simp

lemma driving_unknown_directive:
  "main_iter ''0'' (Some [''all'', ''halt'']) quiet_sensors driving
     = Next (driving\<lparr>robot_state := ''halt''\<rparr>)"
  by code_simp

lemma driving_unknown_action:
  "main_iter ''0'' (Some [''0'', ''halt'']) quiet_sensors driving
     = Next (driving\<lparr>robot_action := ''halt''\<rparr>)"
  by code_simp

text \<open>
  Claim C4 as stated fails: a one-token message stops a driving robot and ends the loop,
  where the pass without a message keeps it driving; an unknown command on \<^verbatim>\<open>all\<close>
  replaces the directive, and one on the robot's own topic replaces the action.
\<close>

theorem malformed_message_counterexample:
  "length [''all''] \<noteq> 2 \<and> ''halt'' \<notin> set vocabulary
   \<and> main_iter ''0'' None quiet_sensors driving = Next driving
   \<and> motor_left driving = 250 \<and> motor_right driving = 250
   \<and> main_iter ''0'' (Some [''all'']) quiet_sensors driving = Exit (0, 0)
   \<and> main_iter ''0'' (Some [''all'', ''halt'']) quiet_sensors driving
       = Next (driving\<lparr>robot_state := ''halt''\<rparr>)
   \<and> main_iter ''0'' (Some [''0'', ''halt'']) quiet_sensors driving
       = Next (driving\<lparr>robot_action := ''halt''\<rparr>)
   \<and> driving\<lparr>robot_state := ''halt''\<rparr> \<noteq> driving
   \<and> driving\<lparr>robot_action := ''halt''\<rparr> \<noteq> driving"
  using driving_no_message driving_one_token driving_unknown_directive driving_unknown_action
  by (simp add: vocabulary_def driving_def)




section \<open>Properties of the orchestrator without response window\<close>

lemma randint_val_range:
  "a \<le> b \<Longrightarrow> a \<le> randint_val g k a b \<and> randint_val g k a b \<le> b"
  using randint_range [of g k a b "randint_val g k a b"] by (simp add: randint_def)

lemma robot_draw_range:
  "0 \<le> randint_val g k 0 (num_robots - 1) \<and> randint_val g k 0 (num_robots - 1) < num_robots"
  using randint_val_range [of 0 "num_robots - 1" g k] by (simp add: num_robots_def)

lemma pause_branch:
  assumes "x_stop_pin inp" and "x_trial_index s < length trials" and "x_cue_emitted s"
    and "robot_state_g s = 0"
    and "x_clock inp - x_start_time s \<ge> real_of_int (offset (trials ! x_trial_index s)) + stop_offset"
  shows "run_experiment_iter g trials inp s
           = Next (start_pause g (trials ! x_trial_index s)
                     (s\<lparr>x_elapsed_time := x_clock inp - x_start_time s\<rparr>))"
  using assms by (simp add: run_experiment_iter_def Let_def)

lemma resume_branch:
  assumes "x_stop_pin inp" and "x_trial_index s < length trials" and "x_cue_emitted s"
    and "robot_state_g s \<noteq> 0"
    and "x_clock inp - x_start_time s
           \<ge> real_of_int (offset (trials ! x_trial_index s)) + stop_offset + robot_stop_duration"
  shows "run_experiment_iter g trials inp s
           = Next ((end_pause (s\<lparr>x_elapsed_time := x_clock inp - x_start_time s\<rparr>))
                     \<lparr>x_trial_index := x_trial_index s + 1, x_cue_emitted := False\<rparr>)"
  using assms by (simp add: run_experiment_iter_def Let_def)

text \<open>
  Claim C5, as amended. In a pass that is not aborted, with the cue of the current trial
  emitted: once the elapsed time has reached the trial's offset plus the stop offset and
  the robot state is idle, a trial with effect \<open>1\<close> makes the orchestrator draw an
  identifier from \<open>0\<close> to \<open>num_robots - 1\<close>, publish its pause, and record it; a trial with
  another effect pauses no robot and publishes nothing (the identifier becomes \<open>-1\<close>, the
  robot state \<open>2\<close>). Once the elapsed time has also passed the stop duration, the
  orchestrator publishes the go of the recorded robot, if there is one, resets the robot
  and cue states, advances to the next trial and resets the cue-emitted flag; the
  recorded identifier stays as it is.
\<close>

theorem pause_then_resume:
  assumes "x_stop_pin inp" and "x_trial_index s < length trials" and "x_cue_emitted s"
    and "trial = trials ! x_trial_index s"
    and "elapsed = x_clock inp - x_start_time s"
    and "rid = randint_val g (x_rng s) 0 (num_robots - 1)"
  shows
    "(robot_state_g s = 0 \<and> elapsed \<ge> real_of_int (offset trial) + stop_offset \<and> effect_of trial = 1
        \<longrightarrow> 0 \<le> rid \<and> rid < num_robots
            \<and> run_experiment_iter g trials inp s
                = Next (s\<lparr>robot_state_g := 1, robot_stop_id_g := rid, x_elapsed_time := elapsed,
                          x_rng := Suc (x_rng s),
                          x_events := x_events s @ [Publish (Robot rid) ''pause'', PushRobotId (rid + 1)]\<rparr>))
     \<and> (robot_state_g s = 0 \<and> elapsed \<ge> real_of_int (offset trial) + stop_offset \<and> effect_of trial \<noteq> 1
        \<longrightarrow> run_experiment_iter g trials inp s
              = Next (s\<lparr>robot_state_g := 2, robot_stop_id_g := - 1, x_elapsed_time := elapsed\<rparr>))
     \<and> (robot_state_g s \<noteq> 0
         \<and> elapsed \<ge> real_of_int (offset trial) + stop_offset + robot_stop_duration
        \<longrightarrow> run_experiment_iter g trials inp s
              = Next (s\<lparr>robot_state_g := 0, cue_state_g := 0, x_elapsed_time := elapsed,
                        x_trial_index := x_trial_index s + 1, x_cue_emitted := False,
                        x_events := x_events s @
                          (if robot_stop_id_g s \<noteq> - 1
                           then [Publish (Robot (robot_stop_id_g s)) ''go''] else [])\<rparr>))"
proof (intro conjI impI)
  assume a: "robot_state_g s = 0 \<and> elapsed \<ge> real_of_int (offset trial) + stop_offset \<and> effect_of trial = 1"
  show "0 \<le> rid" and "rid < num_robots"
    using robot_draw_range [of g "x_rng s"] assms(6) by simp_all
  show "run_experiment_iter g trials inp s
          = Next (s\<lparr>robot_state_g := 1, robot_stop_id_g := rid, x_elapsed_time := elapsed,
                    x_rng := Suc (x_rng s),
                    x_events := x_events s @ [Publish (Robot rid) ''pause'', PushRobotId (rid + 1)]\<rparr>)"
    using a assms pause_branch [of inp s trials g]
    by (simp add: start_pause_def x_emit_def Let_def)
next
  assume a: "robot_state_g s = 0 \<and> elapsed \<ge> real_of_int (offset trial) + stop_offset \<and> effect_of trial \<noteq> 1"
  show "run_experiment_iter g trials inp s
          = Next (s\<lparr>robot_state_g := 2, robot_stop_id_g := - 1, x_elapsed_time := elapsed\<rparr>)"
    using a assms pause_branch [of inp s trials g]
    by (simp add: start_pause_def)
next
  assume a: "robot_state_g s \<noteq> 0
         \<and> elapsed \<ge> real_of_int (offset trial) + stop_offset + robot_stop_duration"
  show "run_experiment_iter g trials inp s
              = Next (s\<lparr>robot_state_g := 0, cue_state_g := 0, x_elapsed_time := elapsed,
                        x_trial_index := x_trial_index s + 1, x_cue_emitted := False,
                        x_events := x_events s @
                          (if robot_stop_id_g s \<noteq> - 1
                           then [Publish (Robot (robot_stop_id_g s)) ''go''] else [])\<rparr>)"
    using a assms resume_branch [of inp s trials]
    by (simp add: end_pause_def x_emit_def Let_def)
qed


lemma cued_zero_effect:
  "run_experiment_iter (\<lambda>k. k + 3) [(30, 0, 0)] (at_clock 131) cued
     = Next (cued\<lparr>robot_state_g := 2, robot_stop_id_g := - 1, x_elapsed_time := 31\<rparr>)"
  by code_simp

lemma paused_resumed:
  "run_experiment_iter (\<lambda>k. k + 3) [(30, 0, 1)] (at_clock 136) paused
     = Next (paused\<lparr>robot_state_g := 0, cue_state_g := 0, x_elapsed_time := 36,
               x_trial_index := 1, x_cue_emitted := False,
               x_events := [Publish (Robot 3) ''go'']\<rparr>)"
  by code_simp

text \<open>
  Claim C5 as stated fails: with the pause due and no robot paused, a trial of effect \<open>0\<close>
  publishes no pause; and the resume leaves the recorded identifier \<open>3\<close> in place.
\<close>

theorem pause_every_trial_counterexample:
  "x_trial_index cued < length [(30, 0, 0) :: trial] \<and> robot_state_g cued = 0
   \<and> x_clock (at_clock 131) - x_start_time cued \<ge> 30 + stop_offset
   \<and> run_experiment_iter (\<lambda>k. k + 3) [(30, 0, 0)] (at_clock 131) cued
       = Next (cued\<lparr>robot_state_g := 2, robot_stop_id_g := - 1, x_elapsed_time := 31\<rparr>)
   \<and> x_events (cued\<lparr>robot_state_g := 2, robot_stop_id_g := - 1, x_elapsed_time := 31\<rparr>) = []
   \<and> robot_stop_id_g paused = 3
   \<and> x_clock (at_clock 136) - x_start_time paused \<ge> 30 + stop_offset + robot_stop_duration
   \<and> run_experiment_iter (\<lambda>k. k + 3) [(30, 0, 1)] (at_clock 136) paused
       = Next (paused\<lparr>robot_state_g := 0, cue_state_g := 0, x_elapsed_time := 36,
                 x_trial_index := 1, x_cue_emitted := False,
                 x_events := [Publish (Robot 3) ''go'']\<rparr>)
   \<and> robot_stop_id_g (paused\<lparr>robot_state_g := 0, cue_state_g := 0, x_elapsed_time := 36,
                 x_trial_index := 1, x_cue_emitted := False,
                 x_events := [Publish (Robot 3) ''go'']\<rparr>) = 3"
  using cued_zero_effect paused_resumed
  by (simp add: cued_def paused_def at_clock_def stop_offset_def robot_stop_duration_def)

theorem pause_then_resume_witness:
  "x_stop_pin (at_clock 131) \<and> x_trial_index cued < length [(30, 0, 1) :: trial] \<and> x_cue_emitted cued
   \<and> robot_state_g cued = 0 \<and> (31::real) \<ge> real_of_int (offset (30, 0, 1)) + stop_offset
   \<and> effect_of (30, 0, 1) = 1
   \<and> run_experiment_iter (\<lambda>k. k + 3) [(30, 0, 1)] (at_clock 131) cued
       = Next (cued\<lparr>robot_state_g := 1, robot_stop_id_g := 3, x_elapsed_time := 31,
                 x_rng := Suc 0,
                 x_events := [Publish (Robot 3) ''pause'', PushRobotId 4]\<rparr>)
   \<and> robot_state_g paused \<noteq> 0
   \<and> (36::real) \<ge> real_of_int (offset (30, 0, 1)) + stop_offset + robot_stop_duration
   \<and> run_experiment_iter (\<lambda>k. k + 3) [(30, 0, 1)] (at_clock 136) paused
       = Next (paused\<lparr>robot_state_g := 0, cue_state_g := 0, x_elapsed_time := 36,
                 x_trial_index := 1, x_cue_emitted := False,
                 x_events := [Publish (Robot 3) ''go'']\<rparr>)"
  using pause_then_resume [where inp = "at_clock 131" and s = cued and trials = "[(30, 0, 1)]"
      and trial = "(30, 0, 1)" and elapsed = 31 and g = "\<lambda>k. k + 3" and rid = 3]
    pause_then_resume [where inp = "at_clock 136" and s = paused and trials = "[(30, 0, 1)]"
      and trial = "(30, 0, 1)" and elapsed = 36 and g = "\<lambda>k. k + 3" and rid = 4]
  by (simp add: cued_def paused_def at_clock_def stop_offset_def robot_stop_duration_def
      randint_val_def num_robots_def)




section \<open>Properties of the orchestrator with response window\<close>

subsection \<open>The steps of a pass\<close>

lemma update_elapsed_frozen: "in_trial s \<Longrightarrow> update_elapsed inp s = s"
  by (simp add: update_elapsed_def)

lemma check_trial_due_skipped:
  "robot_stopped s \<or> in_trial s \<Longrightarrow> check_trial_due g trials inp s = s"
  by (auto simp: check_trial_due_def)

lemma update_elapsed_flags:
  "robot_stopped (update_elapsed inp s) = robot_stopped s"
  "in_trial (update_elapsed inp s) = in_trial s"
  "trial_index (update_elapsed inp s) = trial_index s"
  "trace (update_elapsed inp s) = trace s"
  "ep_robot_stop_id (update_elapsed inp s) = ep_robot_stop_id s"
  "robot_detected (update_elapsed inp s) = robot_detected s"
  "start_time (update_elapsed inp s) = start_time s"
  "robot_stop_time (update_elapsed inp s) = robot_stop_time s"
  "trial_finished (update_elapsed inp s) = trial_finished s"
  "rng (update_elapsed inp s) = rng s"
  by (simp_all add: update_elapsed_def)

lemma check_detected_skipped:
  "\<not> robot_stopped s \<Longrightarrow> check_detected is_training is_test trials inp s = s"
  by (simp add: check_detected_def)

lemma response_window_pass:
  "in_trial s \<Longrightarrow> \<not> robot_stopped s \<Longrightarrow>
     run_training_iter g is_training is_test trials inp s
       = finish_trial inp (wait_response trials inp s)"
  by (simp add: run_training_iter_def update_elapsed_frozen check_trial_due_skipped
      check_detected_skipped)

lemma paused_pass:
  "robot_stopped s \<Longrightarrow>
     run_training_iter g is_training is_test trials inp s
       = finish_trial inp (wait_response trials inp
           (check_detected is_training is_test trials inp (update_elapsed inp s)))"
  by (simp add: run_training_iter_def check_trial_due_skipped update_elapsed_flags)

lemma elapsed_time_later [simp]:
  "elapsed_time (check_trial_due g trials inp s) = elapsed_time s"
  "elapsed_time (check_detected is_training is_test trials inp s) = elapsed_time s"
  "elapsed_time (wait_response trials inp s) = elapsed_time s"
  "elapsed_time (finish_trial inp s) = elapsed_time s"
  by (simp_all add: check_trial_due_def handle_trial_def check_detected_def wait_response_def
      finish_trial_def end_pause_timing_def emit_def Let_def)

lemma start_time_earlier [simp]:
  "start_time (update_elapsed inp s) = start_time s"
  "start_time (check_trial_due g trials inp s) = start_time s"
  "start_time (check_detected is_training is_test trials inp s) = start_time s"
  "start_time (wait_response trials inp s) = start_time s"
  by (simp_all add: update_elapsed_def check_trial_due_def handle_trial_def check_detected_def
      wait_response_def end_pause_timing_def emit_def Let_def)

lemma trial_index_earlier [simp]:
  "trial_index (update_elapsed inp s) = trial_index s"
  "trial_index (check_trial_due g trials inp s) = trial_index s"
  "trial_index (check_detected is_training is_test trials inp s) = trial_index s"
  "trial_index (wait_response trials inp s) = trial_index s"
  by (simp_all add: update_elapsed_def check_trial_due_def handle_trial_def check_detected_def
      wait_response_def end_pause_timing_def emit_def Let_def)

lemma robot_stop_time_later [simp]:
  "robot_stop_time (check_detected is_training is_test trials inp s) = robot_stop_time s"
  "robot_stop_time (wait_response trials inp s) = robot_stop_time s"
  "robot_stop_time (finish_trial inp s) = robot_stop_time s"
  by (simp_all add: check_detected_def wait_response_def finish_trial_def end_pause_timing_def
      emit_def Let_def)

lemma finish_trial_finished:
  "trial_finished s \<Longrightarrow>
     trace (finish_trial inp s) = trace s @ [Publish Led ''0'']
     \<and> trial_index (finish_trial inp s) = trial_index s + 1
     \<and> \<not> in_trial (finish_trial inp s) \<and> \<not> trial_finished (finish_trial inp s)
     \<and> robot_detected (finish_trial inp s) = robot_detected s"
  by (simp add: finish_trial_def emit_def)

subsection \<open>Detection\<close>

lemma check_detected_trace:
  assumes "trial_index s < length trials" and "robot_stopped s" and "user_main inp"
    and "ep_robot_stop_id s \<noteq> - 1"
  shows "trace (check_detected is_training is_test trials inp s)
           = trace s
             @ (if is_training \<and> effect_of (trials ! trial_index s) = 0 then [Play 1 ''Short.wav'']
                else if is_training \<and> effect_of (trials ! trial_index s) = 6 then [Play 1 ''Long.wav'']
                else [])
             @ [Sleep (bisection_period (trials ! trial_index s)),
                Publish (Robot (ep_robot_stop_id s)) ''go'']
             @ (if is_training then [] else [Publish Led ''1''])"
  using assms by (simp add: check_detected_def end_pause_timing_def emit_def Let_def)

lemma wait_response_extends: "\<exists>es. trace (wait_response trials inp s) = trace s @ es"
  by (simp add: wait_response_def emit_def Let_def)

lemma finish_trial_extends: "\<exists>es. trace (finish_trial inp s) = trace s @ es"
  by (simp add: finish_trial_def emit_def)

text \<open>
  Claim C6, as amended. When the detection button is down while the robot of the current
  trial is stopped, the orchestrator (after the sound of a training trial at an extreme
  effect) first sleeps the bisection period \<open>0.2 + 0.1 \<times> effect\<close> and only then publishes the
  go of the stopped robot; the LED directive and the response window of the same pass
  come after both.
\<close>

theorem sleep_then_resume:
  assumes "trial_index s < length trials" and "robot_stopped s" and "user_main inp"
    and "ep_robot_stop_id s \<noteq> - 1"
    and "trial = trials ! trial_index s"
    and "sound = (if is_training \<and> effect_of trial = 0 then [Play 1 ''Short.wav'']
                  else if is_training \<and> effect_of trial = 6 then [Play 1 ''Long.wav'']
                  else [])"
  shows "bisection_period trial = 2 / 10 + 1 / 10 * real_of_int (effect_of trial)
    \<and> trace (check_detected is_training is_test trials inp s)
        = trace s @ sound
          @ [Sleep (bisection_period trial), Publish (Robot (ep_robot_stop_id s)) ''go'']
          @ (if is_training then [] else [Publish Led ''1''])
    \<and> (\<exists>later. trace (run_training_iter g is_training is_test trials inp s)
          = trace s @ sound
            @ [Sleep (bisection_period trial), Publish (Robot (ep_robot_stop_id s)) ''go'']
            @ later)"
proof (intro conjI)
  show "bisection_period trial = 2 / 10 + 1 / 10 * real_of_int (effect_of trial)"
    by (simp add: bisection_period_def)
  show d: "trace (check_detected is_training is_test trials inp s)
        = trace s @ sound
          @ [Sleep (bisection_period trial), Publish (Robot (ep_robot_stop_id s)) ''go'']
          @ (if is_training then [] else [Publish Led ''1''])"
    using check_detected_trace [OF assms(1-4)] assms(5,6) by simp
  let ?u = "update_elapsed inp s"
  have u: "trace (check_detected is_training is_test trials inp ?u)
        = trace s @ sound
          @ [Sleep (bisection_period trial), Publish (Robot (ep_robot_stop_id s)) ''go'']
          @ (if is_training then [] else [Publish Led ''1''])"
    using check_detected_trace [of ?u trials inp is_training is_test] assms
    by (simp add: update_elapsed_flags)
  obtain es where es: "trace (wait_response trials inp (check_detected is_training is_test trials inp ?u))
     = trace (check_detected is_training is_test trials inp ?u) @ es"
    using wait_response_extends by blast
  obtain fs where fs: "trace (finish_trial inp (wait_response trials inp (check_detected is_training is_test trials inp ?u)))
     = trace (wait_response trials inp (check_detected is_training is_test trials inp ?u)) @ fs"
    using finish_trial_extends by blast
  have "trace (run_training_iter g is_training is_test trials inp s)
          = trace s @ sound
            @ [Sleep (bisection_period trial), Publish (Robot (ep_robot_stop_id s)) ''go'']
            @ ((if is_training then [] else [Publish Led ''1'']) @ es @ fs)"
    using paused_pass [OF assms(2)] u es fs by simp
  then show "\<exists>later. trace (run_training_iter g is_training is_test trials inp s)
          = trace s @ sound
            @ [Sleep (bisection_period trial), Publish (Robot (ep_robot_stop_id s)) ''go'']
            @ later"
    by blast
qed

lemma detection_pass:
  "run_training_iter (\<lambda>k. k) False True [(30, 0, 6)] (readings 1040 True False False) waiting_detection
     = waiting_detection\<lparr>ep_robot_state := 0, ep_cue_state := 0, ep_stop_state := 0,
         robot_stopped := False, robot_detected := True,
         trace := [Sleep (4 / 5), Publish (Robot 3) ''go'', Publish Led ''1'']\<rparr>"
  by code_simp

text \<open>
  Claim C6 as stated fails in the order of the two effects: in the pass that detects the
  stopped robot \<open>3\<close>, nothing is published before the sleep, and the go follows it.
\<close>

theorem resume_before_sleep_counterexample:
  "robot_stopped waiting_detection \<and> user_main (readings 1040 True False False)
   \<and> trace waiting_detection = []
   \<and> trace (run_training_iter (\<lambda>k. k) False True [(30, 0, 6)] (readings 1040 True False False)
        waiting_detection)
       = [Sleep (4 / 5), Publish (Robot 3) ''go'', Publish Led ''1'']
   \<and> takeWhile (\<lambda>e. e \<noteq> Sleep (4 / 5))
        (trace (run_training_iter (\<lambda>k. k) False True [(30, 0, 6)] (readings 1040 True False False)
           waiting_detection)) = []"
  using detection_pass by (simp add: waiting_detection_def readings_def)

theorem sleep_then_resume_witness:
  "trial_index waiting_detection < length [(30, 0, 6) :: trial] \<and> robot_stopped waiting_detection
   \<and> user_main (readings 1040 True False False) \<and> ep_robot_stop_id waiting_detection \<noteq> - 1
   \<and> bisection_period (30, 0, 6) = 4 / 5
   \<and> trace (check_detected True False [(30, 0, 6)] (readings 1040 True False False) waiting_detection)
       = [Play 1 ''Long.wav'', Sleep (4 / 5), Publish (Robot 3) ''go'']
   \<and> (\<exists>later. trace (run_training_iter (\<lambda>k. k) True False [(30, 0, 6)]
                       (readings 1040 True False False) waiting_detection)
         = [Play 1 ''Long.wav'', Sleep (4 / 5), Publish (Robot 3) ''go''] @ later)"
  using sleep_then_resume [where s = waiting_detection and trials = "[(30, 0, 6)]"
      and inp = "readings 1040 True False False" and trial = "(30, 0, 6)" and is_training = True
      and is_test = False and g = "\<lambda>k. k" and sound = "[Play 1 ''Long.wav'']"]
  by (simp add: waiting_detection_def readings_def bisection_period_def)

subsection \<open>The robot of a session\<close>

lemma addressed_robots_append [simp]:
  "addressed_robots (es @ fs) = addressed_robots es @ addressed_robots fs"
  by (simp add: addressed_robots_def)

lemma addressed_robots_simps [simp]:
  "addressed_robots [] = []"
  "addressed_robots (Publish (Robot r) c # es) = r # addressed_robots es"
  "addressed_robots (Publish AllRobots c # es) = addressed_robots es"
  "addressed_robots (Publish Led c # es) = addressed_robots es"
  "addressed_robots (Play n f # es) = addressed_robots es"
  "addressed_robots (SubmitDot a b d # es) = addressed_robots es"
  "addressed_robots (PushRobotId r # es) = addressed_robots es"
  "addressed_robots (Sleep x # es) = addressed_robots es"
  by (simp_all add: addressed_robots_def)

lemma addressed_vest [simp]: "addressed_robots vest_events = []"
  by (simp add: vest_events_def vest_dots_def)

lemma bound_to_emit:
  "bound_to rid k n s \<Longrightarrow> list_all (\<lambda>r. r = rid) (addressed_robots es) \<Longrightarrow>
     bound_to rid k n (emit es s)"
  by (simp add: bound_to_def emit_def)

lemma bound_to_update_elapsed:
  "bound_to rid k n s \<Longrightarrow> bound_to rid k n (update_elapsed inp s)"
  by (simp add: bound_to_def update_elapsed_def)

lemma bound_to_handle_trial:
  "bound_to rid k n s \<Longrightarrow> rid \<noteq> - 1 \<Longrightarrow> bound_to rid k n (handle_trial g trial True s)"
  by (simp add: bound_to_def handle_trial_def emit_def Let_def)

lemma bound_to_check_trial_due:
  "bound_to rid k n s \<Longrightarrow> rid \<noteq> - 1 \<Longrightarrow> bound_to rid k n (check_trial_due g trials inp s)"
  using bound_to_handle_trial [of rid k n s g "trials ! trial_index s"]
  by (simp add: check_trial_due_def bound_to_def)

lemma bound_to_check_detected:
  "bound_to rid k n s \<Longrightarrow> is_training \<or> is_test \<Longrightarrow>
     bound_to rid k n (check_detected is_training is_test trials inp s)"
  by (auto simp: bound_to_def check_detected_def end_pause_timing_def emit_def Let_def)

lemma bound_to_wait_response:
  "bound_to rid k n s \<Longrightarrow> bound_to rid k n (wait_response trials inp s)"
  by (simp add: bound_to_def wait_response_def emit_def Let_def)

lemma bound_to_finish_trial:
  "bound_to rid k n s \<Longrightarrow> bound_to rid k n (finish_trial inp s)"
  by (simp add: bound_to_def finish_trial_def emit_def)

lemma bound_to_iter:
  assumes "bound_to rid k n s" and "rid \<noteq> - 1" and "is_training \<or> is_test"
  shows "bound_to rid k n (run_training_iter g is_training is_test trials inp s)"
  unfolding run_training_iter_def
  by (intro bound_to_finish_trial bound_to_wait_response bound_to_check_detected
      bound_to_check_trial_due bound_to_update_elapsed assms)

lemma bound_to_loop:
  assumes "rid \<noteq> - 1" and "is_training \<or> is_test"
  shows "bound_to rid k n s \<Longrightarrow>
     bound_to rid k n (run_training_loop g is_training is_test trials total_duration inps s)"
proof (induction inps arbitrary: s)
  case Nil
  then show ?case by simp
next
  case (Cons inp inps)
  have "bound_to rid k n (run_training_iter g is_training is_test trials inp s)"
    using bound_to_iter [OF Cons.prems assms] .
  then show ?case using Cons by (simp add: Let_def)
qed

lemma session_start_selected:
  assumes "is_training \<or> is_test"
  shows "bound_to (randint_val g (rng s) 0 (num_robots - 1)) (Suc (rng s)) (length (trace s))
           (session_start g is_training is_test clock0 s)"
  using assms by (simp add: session_start_def bound_to_def emit_def reset_robots_def Let_def)

lemma session_bound:
  assumes "is_training \<or> is_test"
  shows "bound_to (randint_val g (rng s) 0 (num_robots - 1)) (Suc (rng s)) (length (trace s))
           (run_training_loop g is_training is_test trials total_duration inps
              (session_start g is_training is_test clock0 s))"
proof -
  have "randint_val g (rng s) 0 (num_robots - 1) \<noteq> - 1"
    using robot_draw_range [of g "rng s"] by simp
  then show ?thesis
    by (rule bound_to_loop [OF _ assms session_start_selected [OF assms]])
qed

lemma bound_to_reset_robots: "bound_to rid k n s \<Longrightarrow> bound_to rid k n (reset_robots s)"
  by (simp add: bound_to_def reset_robots_def emit_def)

lemma run_training_bound:
  assumes "is_training \<or> is_test"
    and "run_training g is_training is_test num_repeats cue_types effect_types clock0 inps s = Inr s'"
  shows "\<exists>rid. 0 \<le> rid \<and> rid < num_robots \<and> ep_robot_stop_id s' = rid
           \<and> list_all (\<lambda>r. r = rid) (addressed_robots (drop (length (trace s)) (trace s')))"
proof -
  from assms(2) obtain trials where
    s': "s' = reset_robots
                (run_training_loop g is_training is_test trials
                   (real_of_int (offset (last trials) + 10)) inps
                   (session_start g is_training is_test clock0
                      (s\<lparr>rng := rng s + (length trials - 1) + length trials\<rparr>)))"
    by (auto simp: run_training_def Let_def split: sum.splits if_splits)
  let ?s1 = "s\<lparr>rng := rng s + (length trials - 1) + length trials\<rparr>"
  let ?rid = "randint_val g (rng ?s1) 0 (num_robots - 1)"
  have "bound_to ?rid (Suc (rng ?s1)) (length (trace ?s1)) s'"
    unfolding s' by (rule bound_to_reset_robots [OF session_bound [OF assms(1)]])
  then have "ep_robot_stop_id s' = ?rid
      \<and> list_all (\<lambda>r. r = ?rid) (addressed_robots (drop (length (trace s)) (trace s')))"
    by (simp add: bound_to_def)
  then show ?thesis using robot_draw_range [of g "rng ?s1"] by blast
qed

text \<open>
  Claim C7, as amended. In a training or a test session the robot is drawn once, where
  the session starts, before the main loop. At every point of the loop the recorded
  identifier is that robot, no further draw has been made, and every directive of the
  session that addresses a robot addresses that one; so it is for the session as a whole.
\<close>

theorem session_robot_fixed:
  assumes "is_training \<or> is_test"
    and "rid = randint_val g (rng s) 0 (num_robots - 1)"
    and "s' = run_training_loop g is_training is_test trials total_duration inps
                (session_start g is_training is_test clock0 s)"
  shows "0 \<le> rid \<and> rid < num_robots
    \<and> ep_robot_stop_id (session_start g is_training is_test clock0 s) = rid
    \<and> ep_robot_stop_id s' = rid
    \<and> rng s' = rng (session_start g is_training is_test clock0 s)
    \<and> list_all (\<lambda>r. r = rid) (addressed_robots (drop (length (trace s)) (trace s')))
    \<and> (run_training g is_training is_test num_repeats cue_types effect_types clock0 inps s = Inr s''
        \<longrightarrow> (\<exists>r. 0 \<le> r \<and> r < num_robots \<and> ep_robot_stop_id s'' = r
               \<and> list_all (\<lambda>x. x = r) (addressed_robots (drop (length (trace s)) (trace s'')))))"
proof -
  have r: "0 \<le> rid \<and> rid < num_robots"
    using robot_draw_range [of g "rng s"] assms(2) by simp
  have b0: "bound_to rid (Suc (rng s)) (length (trace s))
              (session_start g is_training is_test clock0 s)"
    using session_start_selected [OF assms(1)] assms(2) by simp
  have "bound_to rid (Suc (rng s)) (length (trace s)) s'"
    unfolding assms(2,3) by (rule session_bound [OF assms(1)])
  then show ?thesis using r b0 run_training_bound [OF assms(1)] by (simp add: bound_to_def)
qed

lemma test_session:
  "run_training (\<lambda>k. k) False True 1 [0] [0, 6] 1000
     [readings 1030 True True False, readings 1041 True True False] fresh
   = Inr (fresh\<lparr>ep_robot_state := 0, ep_cue_state := 0, ep_stop_state := 0,
        ep_robot_stop_id := 3, trial_index := 2, start_time := 1000, elapsed_time := 41,
        robot_stop_time := 1041, rng := 4,
        trace :=
          [Publish AllRobots ''off'', Sleep (1 / 2), Publish Led ''0'',
           Play 0 ''whitenoise.wav'', Publish (Robot 3) ''on'',
           Publish (Robot 3) ''pause'', PushRobotId 4, Sleep (4 / 5),
           Publish (Robot 3) ''go'', Publish Led ''1'',
           Play 1 ''Correct.wav'', Publish Led ''2'', Publish Led ''0'',
           Publish (Robot 3) ''pause'', PushRobotId 4, Sleep (1 / 5),
           Publish (Robot 3) ''go'', Publish Led ''1'',
           Play 1 ''Wrong.wav'', Publish Led ''3'', Publish Led ''0'',
           Publish AllRobots ''off'', Sleep (1 / 2), Publish Led ''0'']\<rparr>)"
  by code_simp

theorem session_robot_fixed_witness:
  "(False \<or> True)
   \<and> ep_robot_stop_id (session_start (\<lambda>k. k) False True 1000 fresh) = 0
   \<and> ep_robot_stop_id
        (run_training_loop (\<lambda>k. k) False True [(30, 0, 6), (39, 0, 0)] 49
          [readings 1030 True True False, readings 1041 True True False]
          (session_start (\<lambda>k. k) False True 1000 fresh)) = 0
   \<and> list_all (\<lambda>r. r = 0)
        (addressed_robots (drop (length (trace fresh))
          (trace (run_training_loop (\<lambda>k. k) False True [(30, 0, 6), (39, 0, 0)] 49
            [readings 1030 True True False, readings 1041 True True False]
            (session_start (\<lambda>k. k) False True 1000 fresh)))))
   \<and> (\<exists>r. 0 \<le> r \<and> r < num_robots
         \<and> ep_robot_stop_id (fresh\<lparr>ep_robot_state := 0, ep_cue_state := 0, ep_stop_state := 0,
        ep_robot_stop_id := 3, trial_index := 2, start_time := 1000, elapsed_time := 41,
        robot_stop_time := 1041, rng := 4,
        trace :=
          [Publish AllRobots ''off'', Sleep (1 / 2), Publish Led ''0'',
           Play 0 ''whitenoise.wav'', Publish (Robot 3) ''on'',
           Publish (Robot 3) ''pause'', PushRobotId 4, Sleep (4 / 5),
           Publish (Robot 3) ''go'', Publish Led ''1'',
           Play 1 ''Correct.wav'', Publish Led ''2'', Publish Led ''0'',
           Publish (Robot 3) ''pause'', PushRobotId 4, Sleep (1 / 5),
           Publish (Robot 3) ''go'', Publish Led ''1'',
           Play 1 ''Wrong.wav'', Publish Led ''3'', Publish Led ''0'',
           Publish AllRobots ''off'', Sleep (1 / 2), Publish Led ''0'']\<rparr>) = r
         \<and> list_all (\<lambda>x. x = r)
              (addressed_robots
                [Publish AllRobots ''off'', Sleep (1 / 2), Publish Led ''0'',
                 Play 0 ''whitenoise.wav'', Publish (Robot 3) ''on'',
                 Publish (Robot 3) ''pause'', PushRobotId 4, Sleep (4 / 5),
                 Publish (Robot 3) ''go'', Publish Led ''1'',
                 Play 1 ''Correct.wav'', Publish Led ''2'', Publish Led ''0'',
                 Publish (Robot 3) ''pause'', PushRobotId 4, Sleep (1 / 5),
                 Publish (Robot 3) ''go'', Publish Led ''1'',
                 Play 1 ''Wrong.wav'', Publish Led ''3'', Publish Led ''0'',
                 Publish AllRobots ''off'', Sleep (1 / 2), Publish Led ''0'']))"
  using test_session
    session_robot_fixed [where is_training = False and is_test = True and rid = 0
      and g = "\<lambda>k. k" and s = fresh and trials = "[(30, 0, 6), (39, 0, 0)]"
      and total_duration = 49
      and inps = "[readings 1030 True True False, readings 1041 True True False]"
      and ?clock0.0 = 1000 and num_repeats = 1 and cue_types = "[0]"
      and effect_types = "[0, 6]", OF _ _ refl]
  by (simp add: fresh_def randint_val_def num_robots_def)

lemma experiment_session:
  "run_training (\<lambda>k. k) False False 1 [0] [0, 6] 1000
     [readings 1030 True True False, readings 1041 True True False] fresh
   = Inr (fresh\<lparr>ep_robot_state := 0, ep_cue_state := 0, ep_stop_state := 0,
        ep_robot_stop_id := - 1, trial_index := 2, start_time := 1000, elapsed_time := 41,
        robot_stop_time := 1041, rng := 5,
        trace :=
          [Publish AllRobots ''off'', Sleep (1 / 2), Publish Led ''0'',
           Play 0 ''whitenoise.wav'', Publish AllRobots ''on'',
           Publish (Robot 3) ''pause'', PushRobotId 4, Sleep (4 / 5),
           Publish (Robot 3) ''go'', Publish Led ''1'',
           Play 1 ''Correct.wav'', Publish Led ''2'', Publish Led ''0'',
           Publish (Robot 4) ''pause'', PushRobotId 5, Sleep (1 / 5),
           Publish (Robot 4) ''go'', Publish Led ''1'',
           Play 1 ''Wrong.wav'', Publish Led ''3'', Publish Led ''0'',
           Publish AllRobots ''off'', Sleep (1 / 2), Publish Led ''0'']\<rparr>)"
  by code_simp

lemma experiment_session_start:
  "ep_robot_stop_id (session_start (\<lambda>k. k) False False 1000 (fresh\<lparr>rng := 3\<rparr>)) = - 1"
  by code_simp

text \<open>
  Claim C7 as stated fails for the sessions that are neither training nor test: no robot
  is selected before the loop (the identifier is \<open>-1\<close>), and the two trials of this session
  stop robot \<open>3\<close> and then robot \<open>4\<close>.
\<close>

theorem one_robot_per_session_counterexample:
  "ep_robot_stop_id (session_start (\<lambda>k. k) False False 1000 (fresh\<lparr>rng := 3\<rparr>)) = - 1
   \<and> run_training (\<lambda>k. k) False False 1 [0] [0, 6] 1000
       [readings 1030 True True False, readings 1041 True True False] fresh
     = Inr (fresh\<lparr>ep_robot_state := 0, ep_cue_state := 0, ep_stop_state := 0,
        ep_robot_stop_id := - 1, trial_index := 2, start_time := 1000, elapsed_time := 41,
        robot_stop_time := 1041, rng := 5,
        trace :=
          [Publish AllRobots ''off'', Sleep (1 / 2), Publish Led ''0'',
           Play 0 ''whitenoise.wav'', Publish AllRobots ''on'',
           Publish (Robot 3) ''pause'', PushRobotId 4, Sleep (4 / 5),
           Publish (Robot 3) ''go'', Publish Led ''1'',
           Play 1 ''Correct.wav'', Publish Led ''2'', Publish Led ''0'',
           Publish (Robot 4) ''pause'', PushRobotId 5, Sleep (1 / 5),
           Publish (Robot 4) ''go'', Publish Led ''1'',
           Play 1 ''Wrong.wav'', Publish Led ''3'', Publish Led ''0'',
           Publish AllRobots ''off'', Sleep (1 / 2), Publish Led ''0'']\<rparr>)
   \<and> addressed_robots
          [Publish AllRobots ''off'', Sleep (1 / 2), Publish Led ''0'',
           Play 0 ''whitenoise.wav'', Publish AllRobots ''on'',
           Publish (Robot 3) ''pause'', PushRobotId 4, Sleep (4 / 5),
           Publish (Robot 3) ''go'', Publish Led ''1'',
           Play 1 ''Correct.wav'', Publish Led ''2'', Publish Led ''0'',
           Publish (Robot 4) ''pause'', PushRobotId 5, Sleep (1 / 5),
           Publish (Robot 4) ''go'', Publish Led ''1'',
           Play 1 ''Wrong.wav'', Publish Led ''3'', Publish Led ''0'',
           Publish AllRobots ''off'', Sleep (1 / 2), Publish Led ''0''] = [3, 3, 4, 4]"
  using experiment_session experiment_session_start by simp

subsection \<open>Response\<close>

lemma respond_short_only:
  assumes "trial_index s < length trials" and "robot_detected s"
    and "user_short_gate inp" and "user_short inp" and "\<not> user_long inp"
  shows "wait_response trials inp s
     = (if effect_of (trials ! trial_index s) = 0
          then emit [Play 1 ''Correct.wav'', Publish Led ''2''] s
        else if effect_of (trials ! trial_index s) = 6
          then emit [Play 1 ''Wrong.wav'', Publish Led ''3''] s
        else s)\<lparr>robot_detected := False, trial_finished := True\<rparr>"
  using assms by (simp add: wait_response_def Let_def)

lemma respond_long_only:
  assumes "trial_index s < length trials" and "robot_detected s"
    and "user_long_gate inp" and "user_long inp" and "\<not> user_short inp"
  shows "wait_response trials inp s
     = (if effect_of (trials ! trial_index s) = 0
          then emit [Play 1 ''Wrong.wav'', Publish Led ''3''] s
        else if effect_of (trials ! trial_index s) = 6
          then emit [Play 1 ''Correct.wav'', Publish Led ''2''] s
        else s)\<lparr>robot_detected := False, trial_finished := True\<rparr>"
  using assms by (simp add: wait_response_def Let_def)

text \<open>
  Claim C8. In the response window of a trial, a pass in which only the short button is
  down gives the correct feedback (sound and green LED) when the effect is \<open>0\<close> and the
  wrong feedback (sound and red LED) when it is \<open>6\<close>; a pass in which only the long button
  is down gives the wrong feedback when the effect is \<open>0\<close> and the correct feedback when
  it is \<open>6\<close>. The LED is then switched off as the trial is resolved.
\<close>

theorem response_classification:
  assumes "trial_index s < length trials" and "trial = trials ! trial_index s"
    and "in_trial s" and "\<not> robot_stopped s" and "robot_detected s"
    and "s' = run_training_iter g is_training is_test trials inp s"
  shows
    "(effect_of trial = 0 \<and> user_short_gate inp \<and> user_short inp \<and> \<not> user_long inp \<longrightarrow>
        trace s' = trace s @ [Play 1 ''Correct.wav'', Publish Led ''2'', Publish Led ''0''])
     \<and> (effect_of trial = 0 \<and> user_long_gate inp \<and> user_long inp \<and> \<not> user_short inp \<longrightarrow>
        trace s' = trace s @ [Play 1 ''Wrong.wav'', Publish Led ''3'', Publish Led ''0''])
     \<and> (effect_of trial = 6 \<and> user_long_gate inp \<and> user_long inp \<and> \<not> user_short inp \<longrightarrow>
        trace s' = trace s @ [Play 1 ''Correct.wav'', Publish Led ''2'', Publish Led ''0''])
     \<and> (effect_of trial = 6 \<and> user_short_gate inp \<and> user_short inp \<and> \<not> user_long inp \<longrightarrow>
        trace s' = trace s @ [Play 1 ''Wrong.wav'', Publish Led ''3'', Publish Led ''0''])"
proof -
  have p: "s' = finish_trial inp (wait_response trials inp s)"
    using response_window_pass [OF assms(3,4)] assms(6) by simp
  show ?thesis
  proof (intro conjI impI)
    assume "effect_of trial = 0 \<and> user_short_gate inp \<and> user_short inp \<and> \<not> user_long inp"
    then show "trace s' = trace s @ [Play 1 ''Correct.wav'', Publish Led ''2'', Publish Led ''0'']"
      using respond_short_only [of s trials inp] assms(1,2,5) p
      by (simp add: finish_trial_finished emit_def)
  next
    assume "effect_of trial = 0 \<and> user_long_gate inp \<and> user_long inp \<and> \<not> user_short inp"
    then show "trace s' = trace s @ [Play 1 ''Wrong.wav'', Publish Led ''3'', Publish Led ''0'']"
      using respond_long_only [of s trials inp] assms(1,2,5) p
      by (simp add: finish_trial_finished emit_def)
  next
    assume "effect_of trial = 6 \<and> user_long_gate inp \<and> user_long inp \<and> \<not> user_short inp"
    then show "trace s' = trace s @ [Play 1 ''Correct.wav'', Publish Led ''2'', Publish Led ''0'']"
      using respond_long_only [of s trials inp] assms(1,2,5) p
      by (simp add: finish_trial_finished emit_def)
  next
    assume "effect_of trial = 6 \<and> user_short_gate inp \<and> user_short inp \<and> \<not> user_long inp"
    then show "trace s' = trace s @ [Play 1 ''Wrong.wav'', Publish Led ''3'', Publish Led ''0'']"
      using respond_short_only [of s trials inp] assms(1,2,5) p
      by (simp add: finish_trial_finished emit_def)
  qed
qed

theorem response_classification_witness:
  "trial_index waiting_response < length [(30, 0, 6) :: trial] \<and> in_trial waiting_response
   \<and> \<not> robot_stopped waiting_response \<and> robot_detected waiting_response
   \<and> effect_of (30, 0, 6) = 6 \<and> effect_of (30, 0, 0) = 0
   \<and> user_short (readings 1040 False False True) \<and> \<not> user_long (readings 1040 False False True)
   \<and> user_long (readings 1040 False True False) \<and> \<not> user_short (readings 1040 False True False)
   \<and> trace (run_training_iter (\<lambda>k. k) False True [(30, 0, 6)] (readings 1040 False False True)
        waiting_response)
       = trace waiting_response @ [Play 1 ''Wrong.wav'', Publish Led ''3'', Publish Led ''0'']
   \<and> trace (run_training_iter (\<lambda>k. k) False True [(30, 0, 6)] (readings 1040 False True False)
        waiting_response)
       = trace waiting_response @ [Play 1 ''Correct.wav'', Publish Led ''2'', Publish Led ''0'']
   \<and> trace (run_training_iter (\<lambda>k. k) False True [(30, 0, 0)] (readings 1040 False False True)
        waiting_response)
       = trace waiting_response @ [Play 1 ''Correct.wav'', Publish Led ''2'', Publish Led ''0'']
   \<and> trace (run_training_iter (\<lambda>k. k) False True [(30, 0, 0)] (readings 1040 False True False)
        waiting_response)
       = trace waiting_response @ [Play 1 ''Wrong.wav'', Publish Led ''3'', Publish Led ''0'']"
  using
    response_classification [where s = waiting_response and trials = "[(30, 0, 6)]"
      and trial = "(30, 0, 6)" and inp = "readings 1040 False False True" and g = "\<lambda>k. k"
      and is_training = False and is_test = True, OF _ _ _ _ _ refl]
    response_classification [where s = waiting_response and trials = "[(30, 0, 6)]"
      and trial = "(30, 0, 6)" and inp = "readings 1040 False True False" and g = "\<lambda>k. k"
      and is_training = False and is_test = True, OF _ _ _ _ _ refl]
    response_classification [where s = waiting_response and trials = "[(30, 0, 0)]"
      and trial = "(30, 0, 0)" and inp = "readings 1040 False False True" and g = "\<lambda>k. k"
      and is_training = False and is_test = True, OF _ _ _ _ _ refl]
    response_classification [where s = waiting_response and trials = "[(30, 0, 0)]"
      and trial = "(30, 0, 0)" and inp = "readings 1040 False True False" and g = "\<lambda>k. k"
      and is_training = False and is_test = True, OF _ _ _ _ _ refl]
  by (simp add: waiting_response_def readings_def)

subsection \<open>Clock\<close>




subsection \<open>Trials between the extremes\<close>

lemma no_feedback_in_vest [simp]: "filter is_feedback vest_events = []"
  by (simp add: vest_events_def vest_dots_def)

lemma handle_trial_no_feedback:
  "filter is_feedback (trace (handle_trial g trial stop_robot s)) = filter is_feedback (trace s)"
  by (simp add: handle_trial_def emit_def Let_def)

lemma check_trial_due_no_feedback:
  "filter is_feedback (trace (check_trial_due g trials inp s)) = filter is_feedback (trace s)"
  by (simp add: check_trial_due_def handle_trial_no_feedback)

lemma check_detected_no_feedback:
  "filter is_feedback (trace (check_detected is_training is_test trials inp s))
     = filter is_feedback (trace s)"
  by (simp add: check_detected_def end_pause_timing_def emit_def Let_def)

lemma wait_response_middle:
  "effect_of (trials ! trial_index s) \<noteq> 0 \<Longrightarrow> effect_of (trials ! trial_index s) \<noteq> 6 \<Longrightarrow>
     trace (wait_response trials inp s) = trace s"
  by (simp add: wait_response_def Let_def)

lemma finish_trial_no_feedback:
  "filter is_feedback (trace (finish_trial inp s)) = filter is_feedback (trace s)"
  by (simp add: finish_trial_def emit_def)

lemma wait_response_closes:
  "trial_index s < length trials \<Longrightarrow> robot_detected s \<Longrightarrow>
   user_long_gate inp \<or> user_short_gate inp \<Longrightarrow>
     trial_finished (wait_response trials inp s) \<and> \<not> robot_detected (wait_response trials inp s)"
  by (simp add: wait_response_def Let_def)

text \<open>
  Claim C10. For a trial whose effect is neither \<open>0\<close> nor \<open>6\<close>, no pass gives feedback,
  whatever the buttons: neither the correct or wrong sound nor the green or red LED. In
  the response window a press on either response button still resolves the trial: the
  only event of the pass switches the LED off, and the session is at the next trial.
\<close>

theorem middle_effect_no_feedback:
  assumes "trial_index s < length trials"
    and "effect_of (trials ! trial_index s) \<noteq> 0" and "effect_of (trials ! trial_index s) \<noteq> 6"
    and "s' = run_training_iter g is_training is_test trials inp s"
  shows "filter is_feedback (trace s') = filter is_feedback (trace s)
    \<and> (in_trial s \<and> \<not> robot_stopped s \<and> robot_detected s
        \<and> (user_long_gate inp \<or> user_short_gate inp)
       \<longrightarrow> trace s' = trace s @ [Publish Led ''0'']
           \<and> trial_index s' = trial_index s + 1
           \<and> \<not> robot_detected s' \<and> \<not> in_trial s' \<and> \<not> trial_finished s')"
proof -
  let ?d = "check_detected is_training is_test trials inp
              (check_trial_due g trials inp (update_elapsed inp s))"
  have "trace (wait_response trials inp ?d) = trace ?d"
    using assms(2,3) by (simp add: wait_response_middle)
  then have silent: "filter is_feedback (trace s') = filter is_feedback (trace s)"
    unfolding assms(4) run_training_iter_def
    by (simp add: finish_trial_no_feedback check_detected_no_feedback
        check_trial_due_no_feedback update_elapsed_def)
  have advance: "trace s' = trace s @ [Publish Led ''0'']
           \<and> trial_index s' = trial_index s + 1
           \<and> \<not> robot_detected s' \<and> \<not> in_trial s' \<and> \<not> trial_finished s'"
    if a: "in_trial s \<and> \<not> robot_stopped s \<and> robot_detected s
        \<and> (user_long_gate inp \<or> user_short_gate inp)"
  proof -
    let ?w = "wait_response trials inp s"
    have p: "s' = finish_trial inp ?w"
      using response_window_pass [of s g is_training is_test trials inp] a assms(4) by simp
    have w: "trial_finished ?w \<and> \<not> robot_detected ?w"
      using wait_response_closes [OF assms(1)] a by blast
    have t: "trace ?w = trace s" using assms(2,3) by (simp add: wait_response_middle)
    show ?thesis
      using finish_trial_finished [of ?w inp] w t by (simp add: p)
  qed
  show ?thesis using silent advance by blast
qed

theorem middle_effect_no_feedback_witness:
  "trial_index waiting_response < length [(30, 0, 3) :: trial]
   \<and> effect_of ([(30, 0, 3)] ! trial_index waiting_response) \<noteq> 0
   \<and> effect_of ([(30, 0, 3)] ! trial_index waiting_response) \<noteq> 6
   \<and> in_trial waiting_response \<and> \<not> robot_stopped waiting_response
   \<and> robot_detected waiting_response \<and> user_short_gate (readings 1040 False False True)
   \<and> trace (run_training_iter (\<lambda>k. k) False True [(30, 0, 3)] (readings 1040 False False True)
        waiting_response) = trace waiting_response @ [Publish Led ''0'']
   \<and> trial_index (run_training_iter (\<lambda>k. k) False True [(30, 0, 3)]
        (readings 1040 False False True) waiting_response) = trial_index waiting_response + 1
   \<and> filter is_feedback (trace (run_training_iter (\<lambda>k. k) False True [(30, 0, 3)]
        (readings 1040 False False True) waiting_response))
       = filter is_feedback (trace waiting_response)"
  using middle_effect_no_feedback [where s = waiting_response and trials = "[(30, 0, 3)]"
      and inp = "readings 1040 False False True" and g = "\<lambda>k. k"
      and is_training = False and is_test = True, OF _ _ _ refl]
  by (simp add: waiting_response_def readings_def)


end
